theory Spec2Isabelle
  imports Main "HOL-Library.AList"
begin

section \<open>Python values\<close>

text \<open>
  The values that \<open>json.loads\<close> returns and that the two scripts pass around:
  \<open>None\<close>, booleans, integers, strings, lists and dictionaries. A dictionary is an
  association list, in insertion order. A JSON number with a fraction or an exponent,
  which Python reads as a float, is not represented: no step of either script computes
  with a number other than a status code.
\<close>

datatype pyval =
    PNone
  | PBool bool
  | PInt int
  | PStr string
  | PList "pyval list"
  | PDict "(string \<times> pyval) list"

text \<open>The exceptions (all subclasses of \<open>Exception\<close>) that the scripts can meet.\<close>

datatype exn =
    HTTPErrorExn int
  | URLError
  | JSONDecodeError
  | KeyError
  | IndexError
  | TypeError
  | AttributeError
  | ValueError
  | BinasciiError

text \<open>Truthiness, as \<open>if x:\<close> and \<open>not x\<close> test it.\<close>

fun truthy :: "pyval \<Rightarrow> bool" where
  "truthy PNone = False"
| "truthy (PBool b) = b"
| "truthy (PInt n) = (n \<noteq> 0)"
| "truthy (PStr s) = (s \<noteq> [])"
| "truthy (PList xs) = (xs \<noteq> [])"
| "truthy (PDict kv) = (kv \<noteq> [])"

text \<open>
  \<open>obj[i]\<close> with an integer index. A negative index counts from the end of a list or a
  string; a dictionary read from JSON has string keys only, so an integer key is missing.
\<close>

definition seq_index :: "'a list \<Rightarrow> int \<Rightarrow> exn + 'a" where
  "seq_index xs i =
     (if 0 \<le> i \<and> i < int (length xs) then Inr (xs ! nat i)
      else if i < 0 \<and> - int (length xs) \<le> i then Inr (xs ! nat (int (length xs) + i))
      else Inl IndexError)"

fun py_index :: "pyval \<Rightarrow> int \<Rightarrow> exn + pyval" where
  "py_index (PList xs) i = seq_index xs i"
| "py_index (PStr s) i = (case seq_index s i of Inl e \<Rightarrow> Inl e | Inr c \<Rightarrow> Inr (PStr [c]))"
| "py_index (PDict kv) i = Inl KeyError"
| "py_index v i = Inl TypeError"

text \<open>\<open>obj[key]\<close> with a string key: only a dictionary accepts it.\<close>

fun py_item :: "pyval \<Rightarrow> string \<Rightarrow> exn + pyval" where
  "py_item (PDict kv) k = (case map_of kv k of None \<Rightarrow> Inl KeyError | Some v \<Rightarrow> Inr v)"
| "py_item v k = Inl TypeError"

text \<open>
  \<open>obj[key] = value\<close> with a string key: a dictionary keeps the position of a key it
  already has and appends a new one; every other value raises.
\<close>

fun py_setitem :: "pyval \<Rightarrow> string \<Rightarrow> pyval \<Rightarrow> exn + pyval" where
  "py_setitem (PDict kv) k v = Inr (PDict (AList.update k v kv))"
| "py_setitem obj k v = Inl TypeError"

text \<open>\<open>obj.get(key, default)\<close>: a method of dictionaries only.\<close>

fun py_get :: "pyval \<Rightarrow> string \<Rightarrow> pyval \<Rightarrow> exn + pyval" where
  "py_get (PDict kv) k d = (case map_of kv k of None \<Rightarrow> Inr d | Some v \<Rightarrow> Inr v)"
| "py_get obj k d = Inl AttributeError"

text \<open>Iteration (\<open>for r in x\<close>, \<open>set.update(x)\<close>): the elements, the characters, the keys.\<close>

fun py_iter :: "pyval \<Rightarrow> exn + pyval list" where
  "py_iter (PList xs) = Inr xs"
| "py_iter (PStr s) = Inr (map (\<lambda>c. PStr [c]) s)"
| "py_iter (PDict kv) = Inr (map (\<lambda>(k, v). PStr k) kv)"
| "py_iter v = Inl TypeError"

text \<open>\<open>s.startswith(p)\<close>, and \<open>p in s\<close> for a contiguous piece \<open>p\<close> of a string.\<close>

definition startswith :: "string \<Rightarrow> string \<Rightarrow> bool" where
  "startswith s p = (take (length p) s = p)"

fun is_substring :: "string \<Rightarrow> string \<Rightarrow> bool" where
  "is_substring p [] = (p = [])"
| "is_substring p (c # cs) = (startswith (c # cs) p \<or> is_substring p cs)"

text \<open>
  \<open>name in x\<close> for a string \<open>name\<close>: an element of a list, a piece of a string, a key
  of a dictionary; \<open>TypeError\<close> on a value that is not a container.
\<close>

fun py_in :: "string \<Rightarrow> pyval \<Rightarrow> exn + bool" where
  "py_in name (PList xs) = Inr (PStr name \<in> set xs)"
| "py_in name (PStr s) = Inr (is_substring name s)"
| "py_in name (PDict kv) = Inr (name \<in> fst ` set kv)"
| "py_in name v = Inl TypeError"

section \<open>The claims segment of a token\<close>

text \<open>
  Both scripts pad the middle segment of the token with
  \<open>payload += '=' * (4 - len(payload) % 4)\<close>.
\<close>

definition pad_payload :: "string \<Rightarrow> string" where
  "pad_payload payload = payload @ replicate (4 - length payload mod 4) (CHR ''='')"

text \<open>
  Modelled from the spec: \<open>base64.b64decode\<close> of the Python standard library, which is
  not part of the repository. The decoder uses the standard alphabet (\<open>A-Z a-z 0-9 + /\<close>),
  silently discards every character outside it, and reads \<open>=\<close> as padding: padding
  that completes a group of four ends the input, other padding is skipped, and a last
  group left incomplete is an error. A string with a character outside ASCII is refused
  before decoding.
\<close>

definition b64_value :: "char \<Rightarrow> nat option" where
  "b64_value c =
     (let n = (of_char c :: nat)
      in if 65 \<le> n \<and> n \<le> 90 then Some (n - 65)
         else if 97 \<le> n \<and> n \<le> 122 then Some (n - 71)
         else if 48 \<le> n \<and> n \<le> 57 then Some (n + 4)
         else if n = 43 then Some 62
         else if n = 47 then Some 63
         else None)"

definition emit :: "nat \<Rightarrow> exn + nat list \<Rightarrow> exn + nat list" where
  "emit b r = (case r of Inl e \<Rightarrow> Inl e | Inr bs \<Rightarrow> Inr (b # bs))"

fun a2b_base64 :: "nat \<Rightarrow> nat \<Rightarrow> nat \<Rightarrow> string \<Rightarrow> exn + nat list" where
  "a2b_base64 quad_pos pads leftchar [] =
     (if quad_pos \<noteq> 0 then Inl BinasciiError else Inr [])"
| "a2b_base64 quad_pos pads leftchar (c # cs) =
     (if c = CHR ''='' then
        (if 2 \<le> quad_pos \<and> 4 \<le> quad_pos + (pads + 1) then Inr []
         else a2b_base64 quad_pos (if 2 \<le> quad_pos then pads + 1 else pads) leftchar cs)
      else
        (case b64_value c of
           None \<Rightarrow> a2b_base64 quad_pos pads leftchar cs
         | Some v \<Rightarrow>
             (if quad_pos = 0 then a2b_base64 1 0 v cs
              else if quad_pos = 1 then
                emit (leftchar * 4 + v div 16) (a2b_base64 2 0 (v mod 16) cs)
              else if quad_pos = 2 then
                emit (leftchar * 16 + v div 4) (a2b_base64 3 0 (v mod 4) cs)
              else emit (leftchar * 64 + v) (a2b_base64 0 0 0 cs))))"

definition b64decode :: "string \<Rightarrow> exn + string" where
  "b64decode s =
     (if list_ex (\<lambda>c. 128 \<le> (of_char c :: nat)) s then Inl ValueError
      else (case a2b_base64 0 0 0 s of Inl e \<Rightarrow> Inl e | Inr bs \<Rightarrow> Inr (map char_of bs)))"

text \<open>
  The decoding that the compact serialization of a token calls for, written from the
  claim's words to compare with the above: base64url without padding. The alphabet has
  \<open>-\<close> and \<open>_\<close> where the standard one has \<open>+\<close> and \<open>/\<close>; a character outside it, or a
  length that is one more than a multiple of four, is refused.
\<close>

definition b64url_value :: "char \<Rightarrow> nat option" where
  "b64url_value c =
     (let n = (of_char c :: nat)
      in if 65 \<le> n \<and> n \<le> 90 then Some (n - 65)
         else if 97 \<le> n \<and> n \<le> 122 then Some (n - 71)
         else if 48 \<le> n \<and> n \<le> 57 then Some (n + 4)
         else if n = 45 then Some 62
         else if n = 95 then Some 63
         else None)"

fun sextets_to_bytes :: "nat list \<Rightarrow> nat list" where
  "sextets_to_bytes (a # b # c # d # r) =
     (a * 4 + b div 16) # ((b mod 16) * 16 + c div 4) # ((c mod 4) * 64 + d)
       # sextets_to_bytes r"
| "sextets_to_bytes [a, b, c] = [a * 4 + b div 16, (b mod 16) * 16 + c div 4]"
| "sextets_to_bytes [a, b] = [a * 4 + b div 16]"
| "sextets_to_bytes [a] = []"
| "sextets_to_bytes [] = []"

fun sextets_of :: "string \<Rightarrow> nat list option" where
  "sextets_of [] = Some []"
| "sextets_of (c # cs) =
     (case b64url_value c of
        None \<Rightarrow> None
      | Some v \<Rightarrow> (case sextets_of cs of None \<Rightarrow> None | Some vs \<Rightarrow> Some (v # vs)))"

definition b64url_decode :: "string \<Rightarrow> string option" where
  "b64url_decode s =
     (case sextets_of s of
        None \<Rightarrow> None
      | Some vs \<Rightarrow>
          if length vs mod 4 = 1 then None else Some (map char_of (sextets_to_bytes vs)))"

section \<open>Requests, the provider and the run\<close>

text \<open>
  A request as \<open>urllib.request.Request\<close> holds it. \<open>JsonOf v\<close> stands for the bytes
  \<open>json.dumps(v).encode()\<close>, \<open>Form s\<close> for a form-encoded body given as a literal.
\<close>

datatype reqbody = NoBody | JsonOf pyval | Form string

record request =
  req_method :: string
  url :: string
  body :: reqbody
  headers :: "(string \<times> string) list"

text \<open>
  What \<open>urlopen\<close> and the reading of the body do: \<open>Resp status content\<close> when
  \<open>urlopen\<close> returns, with the decoded text of \<open>resp.read()\<close>; \<open>HTTPError code text\<close>
  when it raises \<open>urllib.error.HTTPError\<close>, which it does for a status outside 2xx,
  with the decoded text of \<open>e.read()\<close>; \<open>Raised e\<close> when anything else is raised
  (no connection, the time limit, a body that cannot be read or is not UTF-8).
\<close>

datatype urlopen_result = Resp int string | HTTPError int string | Raised exn

text \<open>
  The surroundings of a run: the provider, which answers a request knowing all requests
  sent so far (the last one is the request to answer); \<open>json.loads\<close>; and \<open>str()\<close> of a
  value that is not a string, as an f-string applies it.
\<close>

record env =
  urlopen :: "request list \<Rightarrow> urlopen_result"
  loads :: "string \<Rightarrow> exn + pyval"
  fmt :: "pyval \<Rightarrow> string"

definition py_str :: "env \<Rightarrow> pyval \<Rightarrow> string" where
  "py_str env v = (case v of PStr s \<Rightarrow> s | _ \<Rightarrow> fmt env v)"

text \<open>
  A printed line: its marker (the check mark, the cross or the warning sign of the
  source, or none), its text with \<open>{}\<close> where a value is interpolated, and the values.
  A line that reports a caught exception carries the exception. Rules of \<open>=\<close> signs,
  blank lines and the frames around headings are left out.
\<close>

datatype icon = NoIcon | Check | Cross | Warn

datatype line = Line icon string "pyval list" | Failure string exn

text \<open>
  How a run ends early: \<open>sys.exit(n)\<close>, or an exception that nothing catches. The
  interpreter ends with status \<open>n\<close> in the first case and, after printing the traceback
  of the exception, with status 1 in the second; a run that reaches its end has status 0.
\<close>

datatype stop = Exit int | Uncaught exn

record state =
  sent :: "request list"
  out :: "line list"

type_synonym 'a run = "state \<Rightarrow> (stop + 'a) \<times> state"

definition ret :: "'a \<Rightarrow> 'a run" where
  "ret x s = (Inr x, s)"

definition bnd :: "'a run \<Rightarrow> ('a \<Rightarrow> 'b run) \<Rightarrow> 'b run" where
  "bnd m f s = (case m s of (Inl e, s') \<Rightarrow> (Inl e, s') | (Inr x, s') \<Rightarrow> f x s')"

definition lift :: "exn + 'a \<Rightarrow> 'a run" where
  "lift r s = (case r of Inl e \<Rightarrow> (Inl (Uncaught e), s) | Inr x \<Rightarrow> (Inr x, s))"

definition sys_exit :: "int \<Rightarrow> 'a run" where
  "sys_exit n s = (Inl (Exit n), s)"

definition print :: "line \<Rightarrow> unit run" where
  "print l s = (Inr (), s\<lparr>out := out s @ [l]\<rparr>)"

text \<open>\<open>try: m except Exception as e: h e\<close>. \<open>SystemExit\<close> is not an \<open>Exception\<close>.\<close>

definition try_except :: "'a run \<Rightarrow> (exn \<Rightarrow> 'a run) \<Rightarrow> 'a run" where
  "try_except m h s =
     (case m s of (Inl (Uncaught e), s') \<Rightarrow> h e s' | (Inl (Exit n), s') \<Rightarrow> (Inl (Exit n), s')
      | (Inr x, s') \<Rightarrow> (Inr x, s'))"

fun for_each :: "('a \<Rightarrow> unit run) \<Rightarrow> 'a list \<Rightarrow> unit run" where
  "for_each f [] = ret ()"
| "for_each f (x # xs) = bnd (f x) (\<lambda>_. for_each f xs)"


definition send :: "env \<Rightarrow> request \<Rightarrow> state \<Rightarrow> urlopen_result \<times> state" where
  "send env req s = (let s' = s\<lparr>sent := sent s @ [req]\<rparr> in (urlopen env (sent s'), s'))"

section \<open>The helpers of both scripts\<close>

definition KC :: string where
  "KC = ''http://localhost:8080''"

definition REALM :: string where
  "REALM = ''crm-prod''"

text \<open>
  \<open>api\<close> is the same function in both scripts (the second names the error body before
  returning it, and waits 15 seconds instead of 10). \<open>api_request\<close> is the request it
  builds, \<open>api\<close> what it returns.
\<close>

definition api_request :: "env \<Rightarrow> string \<Rightarrow> string \<Rightarrow> pyval \<Rightarrow> pyval \<Rightarrow> request" where
  "api_request env meth path data token =
     \<lparr>req_method = meth,
      url = KC @ path,
      body = (if truthy data then JsonOf data else NoBody),
      headers = (''Content-Type'', ''application/json'')
        # (if truthy token then [(''Authorization'', ''Bearer '' @ py_str env token)] else [])\<rparr>"

definition api :: "env \<Rightarrow> string \<Rightarrow> string \<Rightarrow> pyval \<Rightarrow> pyval \<Rightarrow> (int \<times> pyval) run" where
  "api env meth path data token s =
     (case send env (api_request env meth path data token) s of
        (Resp status content, s') \<Rightarrow>
          (if content \<noteq> [] then
             (case loads env content of
                Inl e \<Rightarrow> (Inl (Uncaught e), s')
              | Inr v \<Rightarrow> (Inr (status, v), s'))
           else (Inr (status, PNone), s'))
      | (HTTPError code text, s') \<Rightarrow> (Inr (code, PStr text), s')
      | (Raised e, s') \<Rightarrow> (Inl (Uncaught e), s'))"

text \<open>\<open>json.loads(urllib.request.urlopen(req, timeout=10).read())\<close>, with nothing caught.\<close>

definition fetch_json :: "env \<Rightarrow> request \<Rightarrow> pyval run" where
  "fetch_json env req s =
     (case send env req s of
        (Resp status content, s') \<Rightarrow>
          (case loads env content of
             Inl e \<Rightarrow> (Inl (Uncaught e), s')
           | Inr v \<Rightarrow> (Inr v, s'))
      | (HTTPError code text, s') \<Rightarrow> (Inl (Uncaught (HTTPErrorExn code)), s')
      | (Raised e, s') \<Rightarrow> (Inl (Uncaught e), s'))"

definition token_request :: "string \<Rightarrow> string \<Rightarrow> request" where
  "token_request realm form =
     \<lparr>req_method = ''POST'',
      url = KC @ ''/realms/'' @ realm @ ''/protocol/openid-connect/token'',
      body = Form form,
      headers = []\<rparr>"

text \<open>\<open>get_token\<close> of the first script, \<open>get_admin_token\<close> of the second.\<close>

definition get_token :: "env \<Rightarrow> pyval run" where
  "get_token env =
     bnd (fetch_json env (token_request ''master''
            ''grant_type=password&client_id=admin-cli&username=admin&password=admin''))
       (\<lambda>resp. lift (py_item resp ''access_token''))"

definition get_admin_token :: "env \<Rightarrow> pyval run" where
  "get_admin_token env = get_token env"

definition ok :: "int \<Rightarrow> bool" where
  "ok code = (code = 200 \<or> code = 201 \<or> code = 204)"

definition status_icon :: "int \<Rightarrow> icon" where
  "status_icon code = (if ok code then Check else Warn)"

section \<open>Decoding the token\<close>

text \<open>\<open>s.split(sep)\<close> for a one-character separator.\<close>

fun split_on :: "char \<Rightarrow> string \<Rightarrow> string list" where
  "split_on sep [] = [[]]"
| "split_on sep (c # cs) =
     (if c = sep then [] # split_on sep cs
      else (case split_on sep cs of [] \<Rightarrow> [[c]] | p # ps \<Rightarrow> (c # p) # ps))"

text \<open>\<open>tok.split('.')[1]\<close>: a token that is not a string has no \<open>split\<close>.\<close>

definition claims_segment :: "pyval \<Rightarrow> exn + string" where
  "claims_segment tok =
     (case tok of PStr s \<Rightarrow> seq_index (split_on (CHR ''.'') s) 1 | _ \<Rightarrow> Inl AttributeError)"

text \<open>\<open>json.loads(base64.b64decode(payload))\<close> after the padding.\<close>

definition decode_claims :: "env \<Rightarrow> string \<Rightarrow> exn + pyval" where
  "decode_claims env payload =
     (case b64decode (pad_payload payload) of Inl e \<Rightarrow> Inl e | Inr bs \<Rightarrow> loads env bs)"

text \<open>The password grant of a principal and the decoding of the token it returns.\<close>

definition token_claims :: "env \<Rightarrow> request \<Rightarrow> pyval run" where
  "token_claims env req =
     bnd (fetch_json env req) (\<lambda>resp.
     bnd (lift (py_item resp ''access_token'')) (\<lambda>tok.
     bnd (lift (claims_segment tok)) (\<lambda>payload.
     lift (decode_claims env payload))))"

section \<open>The first script: fix-keycloak-client.py\<close>

definition find_client1 :: "env \<Rightarrow> pyval \<Rightarrow> (pyval \<times> pyval) run" where
  "find_client1 env token =
     bnd (print (Line NoIcon ''2. Finding crm-web client...'' [])) (\<lambda>_.
     bnd (api env ''GET'' (''/admin/realms/'' @ REALM @ ''/clients?clientId=crm-web'')
            PNone token) (\<lambda>(code, clients).
     bnd (if \<not> truthy clients
          then bnd (print (Line Cross ''Client not found'' [])) (\<lambda>_. sys_exit 1)
          else ret ()) (\<lambda>_.
     bnd (lift (py_index clients 0)) (\<lambda>c0.
     bnd (lift (py_item c0 ''id'')) (\<lambda>client_uuid.
     bnd (print (Line Check ''Client UUID: {}'' [client_uuid])) (\<lambda>_.
     ret (clients, client_uuid)))))))"

definition update_client1 :: "env \<Rightarrow> pyval \<Rightarrow> pyval \<Rightarrow> pyval \<Rightarrow> unit run" where
  "update_client1 env token clients client_uuid =
     bnd (print (Line NoIcon ''3. Updating client config...'' [])) (\<lambda>_.
     bnd (lift (py_index clients 0)) (\<lambda>client_data.
     bnd (lift (py_setitem client_data ''fullScopeAllowed'' (PBool True))) (\<lambda>d1.
     bnd (lift (py_setitem d1 ''directAccessGrantsEnabled'' (PBool True))) (\<lambda>d2.
     bnd (lift (py_setitem d2 ''publicClient'' (PBool True))) (\<lambda>d3.
     bnd (api env ''PUT'' (''/admin/realms/'' @ REALM @ ''/clients/'' @ py_str env client_uuid)
            d3 token) (\<lambda>(code, _).
     print (Line (if code = 204 then Check else Cross) ''Update status: {}'' [PInt code])))))))"

definition find_user1 :: "env \<Rightarrow> pyval \<Rightarrow> pyval run" where
  "find_user1 env token =
     bnd (print (Line NoIcon ''4. Finding admin@crm.local...'' [])) (\<lambda>_.
     bnd (api env ''GET'' (''/admin/realms/'' @ REALM @ ''/users?username=admin@crm.local'')
            PNone token) (\<lambda>(code, users).
     bnd (if \<not> truthy users
          then bnd (print (Line Cross ''User not found'' [])) (\<lambda>_. sys_exit 1)
          else ret ()) (\<lambda>_.
     bnd (lift (py_index users 0)) (\<lambda>u0.
     bnd (lift (py_item u0 ''id'')) (\<lambda>user_id.
     bnd (print (Line Check ''User ID: {}'' [user_id])) (\<lambda>_.
     ret user_id))))))"

definition get_role1 :: "env \<Rightarrow> pyval \<Rightarrow> pyval run" where
  "get_role1 env token =
     bnd (print (Line NoIcon ''5. Getting owner_admin role...'' [])) (\<lambda>_.
     bnd (api env ''GET'' (''/admin/realms/'' @ REALM @ ''/roles/owner_admin'') PNone token)
       (\<lambda>(code, role).
     bnd (lift (py_item role ''id'')) (\<lambda>role_id.
     bnd (print (Line Check ''Role ID: {}'' [role_id])) (\<lambda>_.
     ret role_id))))"

definition assign_role1 :: "env \<Rightarrow> pyval \<Rightarrow> pyval \<Rightarrow> pyval \<Rightarrow> unit run" where
  "assign_role1 env token user_id role_id =
     bnd (print (Line NoIcon ''6. Assigning owner_admin to admin@crm.local...'' [])) (\<lambda>_.
     bnd (api env ''POST''
            (''/admin/realms/'' @ REALM @ ''/users/'' @ py_str env user_id
               @ ''/role-mappings/realm'')
            (PList [PDict [(''id'', role_id), (''name'', PStr ''owner_admin'')]]) token)
       (\<lambda>(code, _).
     print (Line (if code = 204 then Check else Warn) ''Assign status: {}'' [PInt code])))"

text \<open>
  \<open>all_roles.update(x)\<close>: the elements of \<open>x\<close> join the set, which is kept as the list
  of what was added; an element that cannot be hashed (a list, a dictionary) raises.
\<close>

fun hashable :: "pyval \<Rightarrow> bool" where
  "hashable (PList xs) = False"
| "hashable (PDict kv) = False"
| "hashable v = True"

definition set_update :: "pyval list \<Rightarrow> pyval \<Rightarrow> exn + pyval list" where
  "set_update acc x =
     (case py_iter x of
        Inl e \<Rightarrow> Inl e
      | Inr els \<Rightarrow> if list_all hashable els then Inr (acc @ els) else Inl TypeError)"

text \<open>
  Lines 91 to 95: the roles under \<open>realm_access\<close> when that has the key \<open>roles\<close>, and
  the legacy claim \<open>realm_roles\<close> when it is not empty.
\<close>

definition all_roles1 :: "pyval \<Rightarrow> pyval \<Rightarrow> exn + pyval list" where
  "all_roles1 realm_access realm_roles =
     (case py_in ''roles'' realm_access of
        Inl e \<Rightarrow> Inl e
      | Inr has \<Rightarrow>
         (case (if has
                then (case py_item realm_access ''roles'' of
                        Inl e \<Rightarrow> Inl e | Inr r \<Rightarrow> set_update [] r)
                else Inr []) of
            Inl e \<Rightarrow> Inl e
          | Inr acc \<Rightarrow> if truthy realm_roles then set_update acc realm_roles else Inr acc))"

definition dict_keys :: "pyval \<Rightarrow> exn + pyval" where
  "dict_keys d =
     (case d of PDict kv \<Rightarrow> Inr (PList (map (\<lambda>(k, v). PStr k) kv)) | _ \<Rightarrow> Inl AttributeError)"

definition report_roles1 :: "pyval \<Rightarrow> unit run" where
  "report_roles1 decoded =
     bnd (lift (py_get decoded ''realm_access'' (PDict []))) (\<lambda>realm_access.
     bnd (lift (py_get decoded ''realm_roles'' (PList []))) (\<lambda>realm_roles.
     bnd (lift (py_get realm_access ''roles'' (PStr ''MISSING''))) (\<lambda>shown.
     bnd (print (Line NoIcon ''realm_access.roles: {}'' [shown])) (\<lambda>_.
     bnd (print (Line NoIcon ''realm_roles: {}''
            [if truthy realm_roles then realm_roles else PStr ''MISSING''])) (\<lambda>_.
     bnd (lift (all_roles1 realm_access realm_roles)) (\<lambda>all_roles.
     if PStr ''owner_admin'' \<in> set all_roles
     then print (Line Check ''owner_admin found in token!'' [])
     else bnd (print (Line Cross ''owner_admin NOT in token'' [])) (\<lambda>_.
          bnd (lift (dict_keys decoded)) (\<lambda>ks.
          print (Line NoIcon ''All claims: {}'' [ks])))))))))"

definition verify1 :: "env \<Rightarrow> unit run" where
  "verify1 env =
     bnd (print (Line NoIcon ''7. Verifying token has roles...'' [])) (\<lambda>_.
     bnd (token_claims env (token_request REALM
            ''grant_type=password&client_id=crm-web&username=admin@crm.local&password=admin123''))
       report_roles1)"

definition provision1 :: "env \<Rightarrow> pyval \<Rightarrow> unit run" where
  "provision1 env token =
     bnd (find_client1 env token) (\<lambda>(clients, client_uuid).
     bnd (update_client1 env token clients client_uuid) (\<lambda>_.
     bnd (find_user1 env token) (\<lambda>user_id.
     bnd (get_role1 env token) (\<lambda>role_id.
     bnd (assign_role1 env token user_id role_id) (\<lambda>_.
     bnd (verify1 env) (\<lambda>_.
     print (Line Check ''Done!'' [])))))))"

definition main1 :: "env \<Rightarrow> unit run" where
  "main1 env =
     bnd (print (Line NoIcon ''1. Getting admin token...'' [])) (\<lambda>_.
     bnd (get_token env) (\<lambda>token.
     bnd (print (Line Check ''Got token'' [])) (\<lambda>_.
     provision1 env token)))"

section \<open>The second script: setup-keycloak-multitenant.py\<close>

definition NEW_ROLES :: "string list" where
  "NEW_ROLES = [''super_admin'', ''company_admin'', ''company_member'']"

definition OLD_ROLES :: "string list" where
  "OLD_ROLES = [''owner_admin'', ''dispatcher'', ''technician'', ''accountant'', ''viewer'']"

text \<open>The body of the loop of lines 62 to 68, and that of lines 74 to 79.\<close>

definition create_role :: "env \<Rightarrow> pyval \<Rightarrow> string \<Rightarrow> unit run" where
  "create_role env token role =
     bnd (api env ''POST'' (''/admin/realms/'' @ REALM @ ''/roles'')
            (PDict [(''name'', PStr role),
                    (''description'', PStr (''CRM '' @ role @ '' role''))]) token)
       (\<lambda>(code, resp).
     if code = 409 then print (Line NoIcon ''{}: already exists'' [PStr role])
     else print (Line (status_icon code) ''{}: created'' [PStr role]))"

definition remove_role :: "env \<Rightarrow> pyval \<Rightarrow> string \<Rightarrow> unit run" where
  "remove_role env token role =
     bnd (api env ''DELETE'' (''/admin/realms/'' @ REALM @ ''/roles/'' @ role) PNone token)
       (\<lambda>(code, resp).
     if code = 404 then print (Line NoIcon ''{}: not found (skip)'' [PStr role])
     else print (Line (status_icon code) ''{}: removed'' [PStr role]))"

definition SUPER_ADMIN :: pyval where
  "SUPER_ADMIN = PDict
     [(''username'', PStr ''superadmin''),
      (''email'', PStr ''superadmin@crm.local''),
      (''firstName'', PStr ''Super''),
      (''lastName'', PStr ''Admin''),
      (''enabled'', PBool True),
      (''emailVerified'', PBool True),
      (''credentials'', PList [PDict [(''type'', PStr ''password''),
         (''value'', PStr ''super123''), (''temporary'', PBool False)]])]"

definition COMPANY_ADMIN :: pyval where
  "COMPANY_ADMIN = PDict
     [(''username'', PStr ''office@bostonmasters.com''),
      (''email'', PStr ''office@bostonmasters.com''),
      (''firstName'', PStr ''Boston''),
      (''lastName'', PStr ''Masters Admin''),
      (''enabled'', PBool True),
      (''emailVerified'', PBool True),
      (''credentials'', PList [PDict [(''type'', PStr ''password''),
         (''value'', PStr ''boston123''), (''temporary'', PBool False)]]),
      (''attributes'', PDict [(''company_id'', PList [PStr ''1''])])]"

text \<open>Lines 93 to 97 and 121 to 125: the creation of a user, named in the report.\<close>

definition create_user :: "env \<Rightarrow> pyval \<Rightarrow> pyval \<Rightarrow> string \<Rightarrow> unit run" where
  "create_user env token user shown =
     bnd (api env ''POST'' (''/admin/realms/'' @ REALM @ ''/users'') user token)
       (\<lambda>(code, resp).
     if code = 409 then print (Line NoIcon (shown @ '': already exists'') [])
     else print (Line (status_icon code) (shown @ '': created'') []))"

text \<open>
  The role is read by name and mapped to the user. \<open>role_obj['id']\<close> is an argument of
  the second call, so it is evaluated before that request is sent.
\<close>

definition assign_role :: "env \<Rightarrow> pyval \<Rightarrow> pyval \<Rightarrow> string \<Rightarrow> unit run" where
  "assign_role env token user_id role =
     bnd (api env ''GET'' (''/admin/realms/'' @ REALM @ ''/roles/'' @ role) PNone token)
       (\<lambda>(code, role_obj).
     bnd (lift (py_item role_obj ''id'')) (\<lambda>role_id.
     bnd (api env ''POST''
            (''/admin/realms/'' @ REALM @ ''/users/'' @ py_str env user_id
               @ ''/role-mappings/realm'')
            (PList [PDict [(''id'', role_id), (''name'', PStr role)]]) token)
       (\<lambda>(code, _).
     print (Line (status_icon code) (role @ '' role assigned'') []))))"

text \<open>
  Lines 137 to 139 and 218 to 220. The dictionary under \<open>attributes\<close> (a new empty one
  when the key is missing) is stored in the user and then changed in place: the user
  holds the changed dictionary, which the last step writes out.
\<close>

definition company_id_update :: "pyval \<Rightarrow> exn + pyval" where
  "company_id_update user_data =
     (case py_get user_data ''attributes'' (PDict []) of
        Inl e \<Rightarrow> Inl e
      | Inr attrs \<Rightarrow>
         (case py_setitem user_data ''attributes'' attrs of
            Inl e \<Rightarrow> Inl e
          | Inr stored \<Rightarrow>
             (case py_setitem attrs ''company_id'' (PList [PStr ''1'']) of
                Inl e \<Rightarrow> Inl e
              | Inr attrs' \<Rightarrow> py_setitem stored ''attributes'' attrs')))"

definition set_company_id :: "env \<Rightarrow> pyval \<Rightarrow> pyval \<Rightarrow> pyval \<Rightarrow> unit run" where
  "set_company_id env token user_id user_data =
     bnd (lift (company_id_update user_data)) (\<lambda>merged.
     bnd (api env ''PUT'' (''/admin/realms/'' @ REALM @ ''/users/'' @ py_str env user_id)
            merged token) (\<lambda>(code, _).
     print (Line (status_icon code) ''company_id attribute set'' [])))"

definition super_admin_step :: "env \<Rightarrow> pyval \<Rightarrow> unit run" where
  "super_admin_step env token =
     bnd (print (Line NoIcon ''3. Create super_admin user'' [])) (\<lambda>_.
     bnd (create_user env token SUPER_ADMIN ''superadmin@crm.local'') (\<lambda>_.
     bnd (api env ''GET''
            (''/admin/realms/'' @ REALM @ ''/users?username=superadmin&exact=true'')
            PNone token) (\<lambda>(code, users).
     if truthy users then
       bnd (lift (py_index users 0)) (\<lambda>u0.
       bnd (lift (py_item u0 ''id'')) (\<lambda>sa_user_id.
       assign_role env token sa_user_id ''super_admin''))
     else ret ())))"

definition company_admin_step :: "env \<Rightarrow> pyval \<Rightarrow> unit run" where
  "company_admin_step env token =
     bnd (print (Line NoIcon ''4. Create company_admin user'' [])) (\<lambda>_.
     bnd (create_user env token COMPANY_ADMIN ''office@bostonmasters.com'') (\<lambda>_.
     bnd (api env ''GET''
            (''/admin/realms/'' @ REALM
               @ ''/users?username=office@bostonmasters.com&exact=true'')
            PNone token) (\<lambda>(code, users).
     if truthy users then
       bnd (lift (py_index users 0)) (\<lambda>u0.
       bnd (lift (py_item u0 ''id'')) (\<lambda>ca_user_id.
       bnd (assign_role env token ca_user_id ''company_admin'') (\<lambda>_.
       bnd (lift (py_index users 0)) (\<lambda>user_data.
       set_company_id env token ca_user_id user_data))))
     else ret ())))"

definition MAPPER :: pyval where
  "MAPPER = PDict
     [(''name'', PStr ''company_id''),
      (''protocol'', PStr ''openid-connect''),
      (''protocolMapper'', PStr ''oidc-usermodel-attribute-mapper''),
      (''config'', PDict
         [(''user.attribute'', PStr ''company_id''),
          (''claim.name'', PStr ''company_id''),
          (''jsonType.label'', PStr ''String''),
          (''id.token.claim'', PStr ''true''),
          (''access.token.claim'', PStr ''true''),
          (''userinfo.token.claim'', PStr ''true''),
          (''multivalued'', PStr ''false'')])]"

text \<open>Lines 145 to 168. The client is read and indexed with no test in between.\<close>

definition mapper_step :: "env \<Rightarrow> pyval \<Rightarrow> unit run" where
  "mapper_step env token =
     bnd (print (Line NoIcon ''5. Add company_id protocol mapper'' [])) (\<lambda>_.
     bnd (api env ''GET'' (''/admin/realms/'' @ REALM @ ''/clients?clientId=crm-web'')
            PNone token) (\<lambda>(code, clients).
     bnd (lift (py_index clients 0)) (\<lambda>c0.
     bnd (lift (py_item c0 ''id'')) (\<lambda>client_uuid.
     bnd (api env ''POST''
            (''/admin/realms/'' @ REALM @ ''/clients/'' @ py_str env client_uuid
               @ ''/protocol-mappers/models'')
            MAPPER token) (\<lambda>(code, resp).
     if code = 409 then print (Line NoIcon ''company_id mapper: already exists'' [])
     else print (Line (status_icon code) ''company_id mapper: created'' []))))))"

definition realm_update :: "(string \<times> pyval) list" where
  "realm_update =
     [(''accessTokenLifespan'', PInt 900),
      (''ssoSessionIdleTimeout'', PInt 1800),
      (''ssoSessionMaxLifespan'', PInt 43200),
      (''offlineSessionIdleTimeout'', PInt 2592000),
      (''passwordPolicy'', PStr ''length(8) and maxLength(128) and notUsername''),
      (''bruteForceProtected'', PBool True),
      (''maxFailureWaitSeconds'', PInt 900),
      (''failureFactor'', PInt 5),
      (''permanentLockout'', PBool False)]"

text \<open>\<open>{**realm, **realm_update}\<close>: only a dictionary can be unpacked.\<close>

definition dict_merge :: "pyval \<Rightarrow> (string \<times> pyval) list \<Rightarrow> exn + pyval" where
  "dict_merge d upd =
     (case d of
        PDict kv \<Rightarrow> Inr (PDict (fold (\<lambda>(k, v) acc. AList.update k v acc) upd kv))
      | _ \<Rightarrow> Inl TypeError)"

definition policy_step :: "env \<Rightarrow> pyval \<Rightarrow> unit run" where
  "policy_step env token =
     bnd (print (Line NoIcon ''6. Configure realm session/password policy'' [])) (\<lambda>_.
     bnd (api env ''GET'' (''/admin/realms/'' @ REALM) PNone token) (\<lambda>(code, realm).
     bnd (lift (dict_merge realm realm_update)) (\<lambda>merged.
     bnd (api env ''PUT'' (''/admin/realms/'' @ REALM) merged token) (\<lambda>(code, _).
     bnd (print (Line (status_icon code) ''Realm policies: updated'' [])) (\<lambda>_.
     bnd (print (Line NoIcon ''Access token: 15 min'' [])) (\<lambda>_.
     bnd (print (Line NoIcon ''SSO idle: 30 min'' [])) (\<lambda>_.
     bnd (print (Line NoIcon ''SSO max: 12 hours'' [])) (\<lambda>_.
     bnd (print (Line NoIcon ''Refresh: 30 days'' [])) (\<lambda>_.
     print (Line NoIcon ''Password: min 8 chars, not username'' []))))))))))"

definition test_user_step :: "env \<Rightarrow> pyval \<Rightarrow> unit run" where
  "test_user_step env token =
     bnd (print (Line NoIcon ''7. Update existing admin@crm.local test user'' [])) (\<lambda>_.
     bnd (api env ''GET'' (''/admin/realms/'' @ REALM @ ''/users?username=admin@crm.local'')
            PNone token) (\<lambda>(code, users).
     if truthy users then
       bnd (lift (py_index users 0)) (\<lambda>u0.
       bnd (lift (py_item u0 ''id'')) (\<lambda>test_user_id.
       bnd (assign_role env token test_user_id ''company_admin'') (\<lambda>_.
       bnd (api env ''GET'' (''/admin/realms/'' @ REALM @ ''/roles/owner_admin'')
              PNone token) (\<lambda>(code, old_role).
       bnd (if code = 200 then
              bnd (lift (py_item old_role ''id'')) (\<lambda>old_id.
              bnd (api env ''DELETE''
                     (''/admin/realms/'' @ REALM @ ''/users/'' @ py_str env test_user_id
                        @ ''/role-mappings/realm'')
                     (PList [PDict [(''id'', old_id), (''name'', PStr ''owner_admin'')]])
                     token) (\<lambda>_.
              print (Line NoIcon ''old owner_admin removed'' [])))
            else ret ()) (\<lambda>_.
       bnd (lift (py_index users 0)) (\<lambda>user_data.
       set_company_id env token test_user_id user_data))))))
     else print (Line NoIcon ''admin@crm.local not found (skip)'' [])))"

text \<open>
  \<open>[r for r in roles if not r.startswith("default")]\<close>: an element that is not a
  string has no \<open>startswith\<close>.
\<close>

fun without_default :: "pyval list \<Rightarrow> exn + pyval list" where
  "without_default [] = Inr []"
| "without_default (PStr r # rs) =
     (case without_default rs of
        Inl e \<Rightarrow> Inl e
      | Inr keep \<Rightarrow> Inr (if startswith r ''default'' then keep else PStr r # keep))"
| "without_default (v # rs) = Inl AttributeError"

definition shown_roles :: "pyval \<Rightarrow> exn + pyval" where
  "shown_roles roles =
     (case py_iter roles of
        Inl e \<Rightarrow> Inl e
      | Inr rs \<Rightarrow> (case without_default rs of Inl e \<Rightarrow> Inl e | Inr keep \<Rightarrow> Inr (PList keep)))"

text \<open>\<open>decoded.get('realm_access', {}).get('roles', [])\<close>.\<close>

definition token_roles :: "pyval \<Rightarrow> exn + pyval" where
  "token_roles decoded =
     (case py_get decoded ''realm_access'' (PDict []) of
        Inl e \<Rightarrow> Inl e
      | Inr realm_access \<Rightarrow> py_get realm_access ''roles'' (PList []))"

text \<open>Lines 239 to 250, inside the \<open>try\<close>.\<close>

definition report_admin :: "pyval \<Rightarrow> unit run" where
  "report_admin decoded =
     bnd (lift (token_roles decoded)) (\<lambda>roles.
     bnd (lift (py_get decoded ''company_id'' PNone)) (\<lambda>company_id.
     bnd (print (Line NoIcon ''admin@crm.local token:'' [])) (\<lambda>_.
     bnd (lift (shown_roles roles)) (\<lambda>shown.
     bnd (print (Line NoIcon ''roles: {}'' [shown])) (\<lambda>_.
     bnd (print (Line NoIcon ''company_id: {}'' [company_id])) (\<lambda>_.
     bnd (lift (py_in ''company_admin'' roles)) (\<lambda>has_role.
     if has_role \<and> truthy company_id
     then print (Line Check ''Token verified: roles + company_id present!'' [])
     else if has_role
     then print (Line Warn ''Roles OK but company_id missing from token'' [])
     else print (Line Cross ''company_admin not in token roles'' []))))))))"

text \<open>Lines 263 to 270, inside the \<open>try\<close>.\<close>

definition report_super :: "pyval \<Rightarrow> unit run" where
  "report_super decoded =
     bnd (lift (token_roles decoded)) (\<lambda>roles.
     bnd (print (Line NoIcon ''superadmin token:'' [])) (\<lambda>_.
     bnd (lift (shown_roles roles)) (\<lambda>shown.
     bnd (print (Line NoIcon ''roles: {}'' [shown])) (\<lambda>_.
     bnd (lift (py_in ''super_admin'' roles)) (\<lambda>has_role.
     if has_role
     then print (Line Check ''super_admin token verified!'' [])
     else print (Line Cross ''super_admin not in token roles'' []))))))"

text \<open>The body of each \<open>try\<close>, and the \<open>try\<close> with its handler.\<close>

definition admin_check :: "env \<Rightarrow> unit run" where
  "admin_check env =
     bnd (token_claims env (token_request REALM
        ''grant_type=password&client_id=crm-web&username=admin%40crm.local&password=admin123''))
       report_admin"

definition super_check :: "env \<Rightarrow> unit run" where
  "super_check env =
     bnd (token_claims env (token_request REALM
        ''grant_type=password&client_id=crm-web&username=superadmin&password=super123''))
       report_super"

definition verify_admin :: "env \<Rightarrow> unit run" where
  "verify_admin env =
     try_except (admin_check env) (\<lambda>e. print (Failure ''Token test failed: {}'' e))"

definition verify_super :: "env \<Rightarrow> unit run" where
  "verify_super env =
     try_except (super_check env) (\<lambda>e. print (Failure ''Superadmin token test failed: {}'' e))"

definition summary :: "unit run" where
  "summary =
     bnd (print (Line Check ''Keycloak multi-tenant setup complete!'' [])) (\<lambda>_.
     bnd (print (Line NoIcon ''Users created:'' [])) (\<lambda>_.
     bnd (print (Line NoIcon ''superadmin@crm.local / super123  (super_admin)'' [])) (\<lambda>_.
     bnd (print (Line NoIcon ''office@bostonmasters.com / boston123  (company_admin)'' []))
       (\<lambda>_.
     print (Line NoIcon ''admin@crm.local / admin123  (company_admin, test)'' [])))))"

definition verification :: "env \<Rightarrow> unit run" where
  "verification env =
     bnd (print (Line NoIcon ''8. Verify token claims'' [])) (\<lambda>_.
     bnd (verify_admin env) (\<lambda>_.
     bnd (verify_super env) (\<lambda>_.
     summary)))"

text \<open>The steps from the protocol mapper on, and the whole run.\<close>

definition from_mapper_step :: "env \<Rightarrow> pyval \<Rightarrow> unit run" where
  "from_mapper_step env token =
     bnd (mapper_step env token) (\<lambda>_.
     bnd (policy_step env token) (\<lambda>_.
     bnd (test_user_step env token) (\<lambda>_.
     verification env)))"

definition provision2 :: "env \<Rightarrow> pyval \<Rightarrow> unit run" where
  "provision2 env token =
     bnd (print (Line NoIcon ''1. Create realm roles'' [])) (\<lambda>_.
     bnd (for_each (create_role env token) NEW_ROLES) (\<lambda>_.
     bnd (print (Line NoIcon ''2. Remove old roles'' [])) (\<lambda>_.
     bnd (for_each (remove_role env token) OLD_ROLES) (\<lambda>_.
     bnd (super_admin_step env token) (\<lambda>_.
     bnd (company_admin_step env token) (\<lambda>_.
     from_mapper_step env token))))))"

definition main2 :: "env \<Rightarrow> unit run" where
  "main2 env =
     bnd (print (Line NoIcon ''Keycloak Multi-tenant CRM Setup'' [])) (\<lambda>_.
     bnd (get_admin_token env) (\<lambda>token.
     bnd (print (Line Check ''Admin token acquired'' [])) (\<lambda>_.
     provision2 env token)))"

section \<open>Surroundings for worked examples\<close>

text \<open>
  A provider that answers the \<open>n\<close>-th request of a run with the \<open>n\<close>-th entry of a list
  and refuses the connection afterwards; \<open>json.loads\<close> on the texts of a table, each
  paired with the value it parses to; \<open>str()\<close> on \<open>None\<close> and on booleans.
\<close>

definition replay :: "urlopen_result list \<Rightarrow> request list \<Rightarrow> urlopen_result" where
  "replay rs h =
     (if h \<noteq> [] \<and> length h \<le> length rs then rs ! (length h - 1) else Raised URLError)"

definition loads_table :: "(string \<times> pyval) list \<Rightarrow> string \<Rightarrow> exn + pyval" where
  "loads_table tbl s = (case map_of tbl s of None \<Rightarrow> Inl JSONDecodeError | Some v \<Rightarrow> Inr v)"

fun fmt_simple :: "pyval \<Rightarrow> string" where
  "fmt_simple (PBool b) = (if b then ''True'' else ''False'')"
| "fmt_simple v = ''None''"

definition example_env :: "urlopen_result list \<Rightarrow> (string \<times> pyval) list \<Rightarrow> env" where
  "example_env rs tbl = \<lparr>urlopen = replay rs, loads = loads_table tbl, fmt = fmt_simple\<rparr>"

definition start :: state where
  "start = \<lparr>sent = [], out = []\<rparr>"

section \<open>What the claims speak of\<close>

text \<open>
  A field of a representation, and an attribute of a user: the value under the key in
  the user's \<open>attributes\<close>, none when the user has no attributes.
\<close>

definition field :: "pyval \<Rightarrow> string \<Rightarrow> pyval option" where
  "field rep k = (case rep of PDict kv \<Rightarrow> map_of kv k | _ \<Rightarrow> None)"

definition attribute :: "pyval \<Rightarrow> string \<Rightarrow> pyval option" where
  "attribute rep k = (case field rep ''attributes'' of Some attrs \<Rightarrow> field attrs k | None \<Rightarrow> None)"

text \<open>
  A user representation as the provider gives it: a dictionary whose \<open>attributes\<close>,
  when present, is a dictionary.
\<close>

definition user_representation :: "pyval \<Rightarrow> bool" where
  "user_representation rep =
     (case rep of
        PDict kv \<Rightarrow>
          (case map_of kv ''attributes'' of
             None \<Rightarrow> True | Some (PDict a) \<Rightarrow> True | Some _ \<Rightarrow> False)
      | _ \<Rightarrow> False)"

text \<open>
  The roles of a decoded token, in the claim's words: the sequence under
  \<open>realm_access.roles\<close>, the legacy sequence under \<open>realm_roles\<close>, and their union.
\<close>

definition role_list :: "pyval option \<Rightarrow> pyval list" where
  "role_list v = (case v of Some (PList rs) \<Rightarrow> rs | _ \<Rightarrow> [])"

definition realm_access_roles :: "pyval \<Rightarrow> pyval list" where
  "realm_access_roles decoded =
     (case field decoded ''realm_access'' of
        Some ra \<Rightarrow> role_list (field ra ''roles'') | None \<Rightarrow> [])"

definition legacy_realm_roles :: "pyval \<Rightarrow> pyval list" where
  "legacy_realm_roles decoded = role_list (field decoded ''realm_roles'')"

definition roles_union :: "pyval \<Rightarrow> pyval set" where
  "roles_union decoded = set (realm_access_roles decoded) \<union> set (legacy_realm_roles decoded)"

text \<open>
  Claims of the expected shape: a dictionary in which \<open>realm_access\<close>, when present,
  is a dictionary, and \<open>realm_access.roles\<close> and \<open>realm_roles\<close>, when present, are
  lists of strings.
\<close>

fun is_str :: "pyval \<Rightarrow> bool" where
  "is_str (PStr s) = True"
| "is_str v = False"

definition names_or_absent :: "pyval option \<Rightarrow> bool" where
  "names_or_absent v =
     (case v of None \<Rightarrow> True | Some (PList rs) \<Rightarrow> list_all is_str rs | Some _ \<Rightarrow> False)"

definition wf_claims :: "pyval \<Rightarrow> bool" where
  "wf_claims decoded =
     (case decoded of
        PDict kv \<Rightarrow>
          names_or_absent (map_of kv ''realm_roles'') \<and>
          (case map_of kv ''realm_access'' of
             None \<Rightarrow> True
           | Some (PDict ra) \<Rightarrow> names_or_absent (map_of ra ''roles'')
           | Some _ \<Rightarrow> False)
      | _ \<Rightarrow> False)"

text \<open>What a run prints when nothing was printed before it.\<close>

definition printed :: "'a run \<Rightarrow> line list" where
  "printed m = out (snd (m start))"

section \<open>Measures used in the proofs\<close>

text \<open>The number of characters of a string that the standard alphabet has.\<close>

definition std_count :: "string \<Rightarrow> nat" where
  "std_count s = length (filter (\<lambda>c. c \<noteq> CHR ''='' \<and> b64_value c \<noteq> None) s)"

section \<open>Facts about the padding and the decoders\<close>

lemma pad_payload_count:
  "pad_payload payload = payload @ replicate (4 - length payload mod 4) (CHR ''='')"
  by (simp add: pad_payload_def)

lemma pad_payload_length: "length (pad_payload payload) mod 4 = 0"
proof -
  have "length (pad_payload payload) = length payload + (4 - length payload mod 4)"
    by (simp add: pad_payload_def)
  then show ?thesis by presburger
qed

lemma emit_Inr: "emit b r = Inr bs \<Longrightarrow> \<exists>bs'. r = Inr bs' \<and> bs = b # bs'"
  by (cases r) (auto simp: emit_def)

lemma a2b_length:
  "a2b_base64 q p l s = Inr bs \<Longrightarrow> q < 4 \<Longrightarrow>
   length bs + (3 * q) div 4 \<le> (3 * (q + std_count s)) div 4"
proof (induction s arbitrary: q p l bs)
  case Nil
  then show ?case by (simp add: std_count_def split: if_splits)
next
  case (Cons c cs)
  show ?case
  proof (cases "c = CHR ''=''")
    case True
    show ?thesis
    proof (cases "2 \<le> q \<and> 4 \<le> q + (p + 1)")
      case True
      with \<open>c = CHR ''=''\<close> Cons.prems have "bs = []" by simp
      then show ?thesis by simp
    next
      case False
      with \<open>c = CHR ''=''\<close> Cons.prems
      have "a2b_base64 q (if 2 \<le> q then p + 1 else p) l cs = Inr bs"
        by (auto split: if_splits)
      from Cons.IH[OF this Cons.prems(2)] \<open>c = CHR ''=''\<close>
      show ?thesis by (simp add: std_count_def)
    qed
  next
    case False
    note neq = this
    show ?thesis
    proof (cases "b64_value c")
      case None
      with neq Cons.prems have "a2b_base64 q p l cs = Inr bs" by simp
      from Cons.IH[OF this Cons.prems(2)] None neq
      show ?thesis by (simp add: std_count_def)
    next
      case (Some v)
      then have cnt: "std_count (c # cs) = Suc (std_count cs)"
        using neq by (simp add: std_count_def)
      consider "q = 0" | "q = 1" | "q = 2" | "q = 3" using Cons.prems(2) by linarith
      then show ?thesis
      proof cases
        case 1
        with neq Some Cons.prems have "a2b_base64 1 0 v cs = Inr bs" by simp
        from Cons.IH[OF this] 1 cnt show ?thesis by simp
      next
        case 2
        with neq Some Cons.prems
        have "emit (l * 4 + v div 16) (a2b_base64 2 0 (v mod 16) cs) = Inr bs" by simp
        then obtain bs' where r: "a2b_base64 2 0 (v mod 16) cs = Inr bs'"
          and b: "bs = (l * 4 + v div 16) # bs'" by (blast dest: emit_Inr)
        from Cons.IH[OF r] 2 cnt b show ?thesis by simp
      next
        case 3
        with neq Some Cons.prems
        have "emit (l * 16 + v div 4) (a2b_base64 3 0 (v mod 4) cs) = Inr bs" by simp
        then obtain bs' where r: "a2b_base64 3 0 (v mod 4) cs = Inr bs'"
          and b: "bs = (l * 16 + v div 4) # bs'" by (blast dest: emit_Inr)
        from Cons.IH[OF r] 3 cnt b show ?thesis by simp
      next
        case 4
        with neq Some Cons.prems
        have "emit (l * 64 + v) (a2b_base64 0 0 0 cs) = Inr bs" by simp
        then obtain bs' where r: "a2b_base64 0 0 0 cs = Inr bs'"
          and b: "bs = (l * 64 + v) # bs'" by (blast dest: emit_Inr)
        from Cons.IH[OF r] 4 cnt b show ?thesis by simp
      qed
    qed
  qed
qed

lemma std_count_pad: "std_count (pad_payload s) = std_count s"
  by (simp add: std_count_def pad_payload_def)

lemma b64decode_length:
  "b64decode s = Inr bs \<Longrightarrow> length bs \<le> (3 * std_count s) div 4"
  using a2b_length[of 0 0 0 s]
  by (auto simp: b64decode_def split: if_splits sum.splits)

lemma sextets_to_bytes_length: "length (sextets_to_bytes vs) = (3 * length vs) div 4"
  by (induction vs rule: sextets_to_bytes.induct) simp_all

lemma sextets_of_length: "sextets_of s = Some vs \<Longrightarrow> length vs = length s"
  by (induction s arbitrary: vs) (auto split: option.splits)

lemma b64_value_dash: "b64_value (CHR ''-'') = None" "b64_value (CHR ''_'') = None"
  by (simp_all add: b64_value_def)

lemma std_count_le: "std_count s \<le> length s"
  by (simp add: std_count_def)

lemma std_count_less:
  "CHR ''-'' \<in> set s \<or> CHR ''_'' \<in> set s \<Longrightarrow> std_count s < length s"
proof (induction s)
  case Nil
  then show ?case by simp
next
  case (Cons c cs)
  show ?case
  proof (cases "c = CHR ''-'' \<or> c = CHR ''_''")
    case True
    then have "std_count (c # cs) = std_count cs"
      by (auto simp: std_count_def b64_value_dash)
    with std_count_le[of cs] show ?thesis by simp
  next
    case False
    with Cons.prems have "CHR ''-'' \<in> set cs \<or> CHR ''_'' \<in> set cs" by auto
    from Cons.IH[OF this] show ?thesis by (simp add: std_count_def)
  qed
qed

lemma step_mono: "n \<le> k \<Longrightarrow> (3 * n) div 4 \<le> (3 * k) div (4::nat)"
  by (simp add: div_le_mono)

lemma step_one: "0 < m \<Longrightarrow> m mod 4 \<noteq> 1 \<Longrightarrow> (3 * (m - 1)) div 4 < (3 * m) div (4::nat)"
proof -
  assume pos: "0 < m" and md: "m mod 4 \<noteq> 1"
  define j where "j = m div 4"
  define r where "r = m mod 4"
  have m: "m = 4 * j + r" by (simp add: j_def r_def)
  have "r < 4" by (simp add: r_def)
  with md consider "r = 0" | "r = 2" | "r = 3" unfolding r_def by linarith
  then show ?thesis
  proof cases
    case 1
    with m pos have "0 < j" by simp
    then obtain i where "j = Suc i" by (cases j) auto
    with m 1 show ?thesis by arith
  next
    case 2
    with m show ?thesis by arith
  next
    case 3
    with m show ?thesis by arith
  qed
qed

lemma step_arith: "n < m \<Longrightarrow> m mod 4 \<noteq> 1 \<Longrightarrow> (3 * n) div 4 < (3 * m) div (4::nat)"
  using step_mono[of n "m - 1"] step_one[of m] by simp

lemma excess_padding_ignored:
  "b64decode (''eyJhIjoxMjN9'' @ ''===='') = b64decode ''eyJhIjoxMjN9''"
  by code_simp

section \<open>Facts about runs\<close>

lemma bnd_ret: "bnd (ret x) f = f x"
  by (rule ext) (simp add: bnd_def ret_def)

lemma bnd_print: "bnd (print l) f s = f () (s\<lparr>out := out s @ [l]\<rparr>)"
  by (simp add: bnd_def print_def)

lemma bnd_lift_Inr: "bnd (lift (Inr x)) f = f x"
  by (rule ext) (simp add: bnd_def lift_def)

lemma bnd_lift_Inl: "bnd (lift (Inl e)) f s = (Inl (Uncaught e), s)"
  by (simp add: bnd_def lift_def)

lemma bnd_sys_exit: "bnd (sys_exit n) f s = (Inl (Exit n), s)"
  by (simp add: bnd_def sys_exit_def)

lemma bnd_Inr: "m s = (Inr x, s') \<Longrightarrow> bnd m f s = f x s'"
  by (simp add: bnd_def)

lemma bnd_Inl: "m s = (Inl e, s') \<Longrightarrow> bnd m f s = (Inl e, s')"
  by (simp add: bnd_def)

lemma start_simps: "sent start = []" "out start = []"
  by (simp_all add: start_def)

lemma api_sent:
  "sent (snd (api env meth path data token s)) = sent s @ [api_request env meth path data token]"
  by (simp add: api_def send_def split: urlopen_result.splits sum.splits)

lemma api_out: "out (snd (api env meth path data token s)) = out s"
  by (simp add: api_def send_def split: urlopen_result.splits sum.splits)

lemma find_client1_cases:
  assumes "api env ''GET'' (''/admin/realms/'' @ REALM @ ''/clients?clientId=crm-web'') PNone token
        (s\<lparr>out := out s @ [Line NoIcon ''2. Finding crm-web client...'' []]\<rparr>)
      = (Inr (code, b), s')"
  shows "find_client1 env token s =
     (if \<not> truthy b then (Inl (Exit 1), s'\<lparr>out := out s' @ [Line Cross ''Client not found'' []]\<rparr>)
      else case py_index b 0 of
             Inl e \<Rightarrow> (Inl (Uncaught e), s')
           | Inr c0 \<Rightarrow>
              (case py_item c0 ''id'' of
                 Inl e \<Rightarrow> (Inl (Uncaught e), s')
               | Inr u \<Rightarrow> (Inr (b, u), s'\<lparr>out := out s' @ [Line Check ''Client UUID: {}'' [u]]\<rparr>)))"
  using assms
  by (simp add: find_client1_def bnd_def print_def sys_exit_def lift_def ret_def split: sum.splits)

lemma find_user1_cases:
  assumes "api env ''GET'' (''/admin/realms/'' @ REALM @ ''/users?username=admin@crm.local'') PNone
        token (s\<lparr>out := out s @ [Line NoIcon ''4. Finding admin@crm.local...'' []]\<rparr>)
      = (Inr (code, b), s')"
  shows "find_user1 env token s =
     (if \<not> truthy b then (Inl (Exit 1), s'\<lparr>out := out s' @ [Line Cross ''User not found'' []]\<rparr>)
      else case py_index b 0 of
             Inl e \<Rightarrow> (Inl (Uncaught e), s')
           | Inr u0 \<Rightarrow>
              (case py_item u0 ''id'' of
                 Inl e \<Rightarrow> (Inl (Uncaught e), s')
               | Inr u \<Rightarrow> (Inr u, s'\<lparr>out := out s' @ [Line Check ''User ID: {}'' [u]]\<rparr>)))"
  using assms
  by (simp add: find_user1_def bnd_def print_def sys_exit_def lift_def ret_def split: sum.splits)

lemma index_text: "t \<noteq> [] \<Longrightarrow> seq_index t 0 = Inr (hd t)"
  by (cases t) (simp_all add: seq_index_def)

lemma company_id_update_dict:
  assumes "map_of kv ''attributes'' = None \<or> map_of kv ''attributes'' = Some (PDict a)"
  shows "company_id_update (PDict kv)
     = Inr (PDict (AList.update ''attributes''
         (PDict (AList.update ''company_id'' (PList [PStr ''1''])
            (case map_of kv ''attributes'' of Some (PDict a) \<Rightarrow> a | _ \<Rightarrow> []))) kv))"
  using assms by (auto simp: company_id_update_def update_conv')

lemma user_representation_cases:
  "user_representation rep \<Longrightarrow>
   \<exists>kv. rep = PDict kv \<and>
     (map_of kv ''attributes'' = None \<or> (\<exists>a. map_of kv ''attributes'' = Some (PDict a)))"
proof -
  assume u: "user_representation rep"
  then obtain kv where rep: "rep = PDict kv"
    by (cases rep) (simp_all add: user_representation_def)
  show ?thesis
  proof (cases "map_of kv ''attributes''")
    case None
    with rep show ?thesis by simp
  next
    case (Some v)
    with u rep obtain a where "v = PDict a"
      by (cases v) (simp_all add: user_representation_def)
    with Some rep show ?thesis by simp
  qed
qed

lemma set_company_id_sent:
  "company_id_update user_data = Inr merged \<Longrightarrow>
   sent (snd (set_company_id env token user_id user_data s))
     = sent s @ [api_request env ''PUT''
         (''/admin/realms/'' @ REALM @ ''/users/'' @ py_str env user_id) merged token]"
  using api_sent[of env "''PUT''" "''/admin/realms/'' @ REALM @ ''/users/'' @ py_str env user_id"
      merged token s]
  by (auto simp: set_company_id_def bnd_def lift_def print_def split: prod.splits sum.splits)

lemma fetch_json_no_exit: "fst (fetch_json env req s) \<noteq> Inl (Exit n)"
  by (simp add: fetch_json_def send_def split: urlopen_result.splits sum.splits)

lemma lift_no_exit: "fst (lift r s) \<noteq> Inl (Exit n)"
  by (simp add: lift_def split: sum.splits)

lemma print_no_exit: "fst (print l s) \<noteq> Inl (Exit n)"
  by (simp add: print_def)

lemma bnd_no_exit:
  assumes "\<And>s. fst (m s) \<noteq> Inl (Exit n)" and "\<And>x s. fst (f x s) \<noteq> Inl (Exit n)"
  shows "fst (bnd m f s) \<noteq> Inl (Exit n)"
proof (cases "m s")
  case (Pair r s')
  show ?thesis
  proof (cases r)
    case (Inl e)
    with Pair assms(1)[of s] show ?thesis by (simp add: bnd_def)
  next
    case (Inr x)
    with Pair assms(2)[of x s'] show ?thesis by (simp add: bnd_def)
  qed
qed

lemma token_claims_no_exit: "fst (token_claims env req s) \<noteq> Inl (Exit n)"
  unfolding token_claims_def
  by (intro bnd_no_exit fetch_json_no_exit lift_no_exit)

lemma report_admin_no_exit: "fst (report_admin decoded s) \<noteq> Inl (Exit n)"
  unfolding report_admin_def
  by (intro bnd_no_exit lift_no_exit print_no_exit) (simp add: print_def)

lemma report_super_no_exit: "fst (report_super decoded s) \<noteq> Inl (Exit n)"
  unfolding report_super_def
  by (intro bnd_no_exit lift_no_exit print_no_exit) (simp add: print_def)

lemma admin_check_no_exit: "fst (admin_check env s) \<noteq> Inl (Exit n)"
  unfolding admin_check_def
  by (intro bnd_no_exit token_claims_no_exit report_admin_no_exit)

lemma super_check_no_exit: "fst (super_check env s) \<noteq> Inl (Exit n)"
  unfolding super_check_def
  by (intro bnd_no_exit token_claims_no_exit report_super_no_exit)

lemma try_except_print:
  assumes "\<And>n. fst (m s) \<noteq> Inl (Exit n)"
  shows "fst (try_except m (\<lambda>e. print (h e)) s) = Inr ()"
proof (cases "m s")
  case (Pair r s')
  show ?thesis
  proof (cases r)
    case (Inl st)
    with Pair assms show ?thesis
      by (cases st) (auto simp: try_except_def print_def)
  next
    case (Inr x)
    with Pair show ?thesis by (simp add: try_except_def)
  qed
qed

lemma fetch_json_sent: "sent (snd (fetch_json env req s)) = sent s @ [req]"
  by (simp add: fetch_json_def send_def split: urlopen_result.splits sum.splits)

lemma lift_sent: "sent (snd (lift r s)) = sent s"
  by (simp add: lift_def split: sum.splits)

lemma print_sent: "sent (snd (print l s)) = sent s"
  by (simp add: print_def)

lemma bnd_sent:
  assumes "\<And>s. sent (snd (m s)) = sent s @ a" and "\<And>x s. sent (snd (f x s)) = sent s"
  shows "sent (snd (bnd m f s)) = sent s @ a"
proof (cases "m s")
  case (Pair r s')
  with assms(1)[of s] have s': "sent s' = sent s @ a" by simp
  show ?thesis
  proof (cases r)
    case (Inl e)
    with Pair s' show ?thesis by (simp add: bnd_def)
  next
    case (Inr x)
    with Pair s' assms(2)[of x s'] show ?thesis by (simp add: bnd_def)
  qed
qed

lemma bnd_sent_keep:
  assumes "\<And>s. sent (snd (m s)) = sent s" and "\<And>x s. sent (snd (f x s)) = sent s"
  shows "sent (snd (bnd m f s)) = sent s"
  using bnd_sent[of m "[]" f s] assms by simp

lemma token_claims_sent: "sent (snd (token_claims env req s)) = sent s @ [req]"
  unfolding token_claims_def
  by (intro bnd_sent fetch_json_sent bnd_sent_keep lift_sent)

lemma report_admin_sent: "sent (snd (report_admin decoded s)) = sent s"
  unfolding report_admin_def
  by (intro bnd_sent_keep lift_sent print_sent) (simp add: print_def)

lemma report_super_sent: "sent (snd (report_super decoded s)) = sent s"
  unfolding report_super_def
  by (intro bnd_sent_keep lift_sent print_sent) (simp add: print_def)

lemma try_except_print_sent:
  assumes "\<And>s. sent (snd (m s)) = sent s @ a"
  shows "sent (snd (try_except m (\<lambda>e. print (h e)) s)) = sent s @ a"
proof (cases "m s")
  case (Pair r s')
  with assms[of s] have s': "sent s' = sent s @ a" by simp
  show ?thesis
  proof (cases r)
    case (Inl st)
    with Pair s' show ?thesis
      by (cases st) (simp_all add: try_except_def print_def)
  next
    case (Inr x)
    with Pair s' show ?thesis by (simp add: try_except_def)
  qed
qed

lemma verify_admin_ok: "fst (verify_admin env s) = Inr ()"
  unfolding verify_admin_def by (rule try_except_print) (rule admin_check_no_exit)

lemma verify_super_ok: "fst (verify_super env s) = Inr ()"
  unfolding verify_super_def by (rule try_except_print) (rule super_check_no_exit)

lemma verify_admin_sent:
  "sent (snd (verify_admin env s)) = sent s @ [token_request REALM
     ''grant_type=password&client_id=crm-web&username=admin%40crm.local&password=admin123'']"
  unfolding verify_admin_def admin_check_def
  by (intro try_except_print_sent bnd_sent token_claims_sent report_admin_sent)

lemma verify_super_sent:
  "sent (snd (verify_super env s)) = sent s @ [token_request REALM
     ''grant_type=password&client_id=crm-web&username=superadmin&password=super123'']"
  unfolding verify_super_def super_check_def
  by (intro try_except_print_sent bnd_sent token_claims_sent report_super_sent)

lemma summary_ok: "fst (summary s) = Inr () \<and> sent (snd (summary s)) = sent s"
  by (simp add: summary_def bnd_def print_def)

lemma verification_run:
  "fst (verification env s) = Inr ()
   \<and> sent (snd (verification env s)) = sent s @
       [token_request REALM
          ''grant_type=password&client_id=crm-web&username=admin%40crm.local&password=admin123'',
        token_request REALM
          ''grant_type=password&client_id=crm-web&username=superadmin&password=super123'']"
proof -
  let ?s0 = "s\<lparr>out := out s @ [Line NoIcon ''8. Verify token claims'' []]\<rparr>"
  obtain s1 where a: "verify_admin env ?s0 = (Inr (), s1)"
    using verify_admin_ok[of env ?s0] by (cases "verify_admin env ?s0") simp
  obtain s2 where b: "verify_super env s1 = (Inr (), s2)"
    using verify_super_ok[of env s1] by (cases "verify_super env s1") simp
  have v: "verification env s = summary s2"
    by (simp add: verification_def bnd_def print_def a b)
  have "sent s1 = sent ?s0 @ [token_request REALM
     ''grant_type=password&client_id=crm-web&username=admin%40crm.local&password=admin123'']"
    using verify_admin_sent[of env ?s0] a by simp
  moreover have "sent s2 = sent s1 @ [token_request REALM
     ''grant_type=password&client_id=crm-web&username=superadmin&password=super123'']"
    using verify_super_sent[of env s1] b by simp
  ultimately show ?thesis using summary_ok[of s2] by (simp add: v)
qed

lemma names_cases:
  "names_or_absent v \<Longrightarrow> v = None \<or> (\<exists>rs. v = Some (PList rs) \<and> list_all is_str rs)"
proof (cases v)
  case None
  then show ?thesis by simp
next
  case (Some x)
  assume "names_or_absent v"
  with Some show ?thesis by (cases x) (simp_all add: names_or_absent_def)
qed

lemma names_value:
  "names_or_absent v \<Longrightarrow>
   (case v of None \<Rightarrow> PList [] | Some x \<Rightarrow> x) = PList (role_list v) \<and> list_all is_str (role_list v)"
  by (drule names_cases) (auto simp: role_list_def)

lemma is_str_hashable: "list_all is_str rs \<Longrightarrow> list_all hashable rs"
  by (induction rs) (auto elim: is_str.elims)

lemma without_default_total: "list_all is_str rs \<Longrightarrow> \<exists>keep. without_default rs = Inr keep"
proof (induction rs)
  case Nil
  then show ?case by simp
next
  case (Cons r rs)
  then obtain keep where "without_default rs = Inr keep" by auto
  moreover from Cons.prems obtain n where "r = PStr n" by (cases r) simp_all
  ultimately show ?case by simp
qed

lemma wf_claims_cases:
  assumes "wf_claims decoded"
  obtains kv ra where "decoded = PDict kv"
    and "names_or_absent (map_of kv ''realm_roles'')"
    and "py_get decoded ''realm_access'' (PDict []) = Inr (PDict ra)"
    and "names_or_absent (map_of ra ''roles'')"
    and "realm_access_roles decoded = role_list (map_of ra ''roles'')"
proof -
  from assms obtain kv where d: "decoded = PDict kv"
    by (cases decoded) (simp_all add: wf_claims_def)
  with assms have n: "names_or_absent (map_of kv ''realm_roles'')"
    by (simp add: wf_claims_def)
  show thesis
  proof (cases "map_of kv ''realm_access''")
    case None
    show thesis
    proof (rule that[of kv "[]"])
      show "decoded = PDict kv" by (rule d)
      show "names_or_absent (map_of kv ''realm_roles'')" by (rule n)
      show "py_get decoded ''realm_access'' (PDict []) = Inr (PDict [])"
        by (simp add: d None)
      show "names_or_absent (map_of [] ''roles'')" by (simp add: names_or_absent_def)
      show "realm_access_roles decoded = role_list (map_of [] ''roles'')"
        by (simp add: realm_access_roles_def field_def d None role_list_def)
    qed
  next
    case (Some v)
    with assms d obtain ra where v: "v = PDict ra"
      by (cases v) (simp_all add: wf_claims_def)
    show thesis
    proof (rule that[of kv ra])
      show "decoded = PDict kv" by (rule d)
      show "names_or_absent (map_of kv ''realm_roles'')" by (rule n)
      show "py_get decoded ''realm_access'' (PDict []) = Inr (PDict ra)"
        by (simp add: d Some v)
      show "names_or_absent (map_of ra ''roles'')"
        using assms by (simp add: wf_claims_def d Some v)
      show "realm_access_roles decoded = role_list (map_of ra ''roles'')"
        by (simp add: realm_access_roles_def field_def d Some v)
    qed
  qed
qed

lemma all_roles1_names:
  assumes "names_or_absent (map_of ra ''roles'')" and "list_all is_str rrs"
  shows "all_roles1 (PDict ra) (PList rrs) = Inr (role_list (map_of ra ''roles'') @ rrs)"
proof -
  from names_cases[OF assms(1)] show ?thesis
  proof
    assume n: "map_of ra ''roles'' = None"
    then have "''roles'' \<notin> fst ` set ra" by (simp add: map_of_eq_None_iff)
    with n assms(2) show ?thesis
      by (simp add: all_roles1_def set_update_def role_list_def is_str_hashable)
  next
    assume "\<exists>rs. map_of ra ''roles'' = Some (PList rs) \<and> list_all is_str rs"
    then obtain rs where s: "map_of ra ''roles'' = Some (PList rs)" and a: "list_all is_str rs"
      by blast
    from s have "''roles'' \<in> fst ` set ra"
      by (metis map_of_eq_None_iff option.distinct(1))
    with s a assms(2) show ?thesis
      by (simp add: all_roles1_def set_update_def role_list_def is_str_hashable)
  qed
qed

section \<open>The claims\<close>

text \<open>
  C1. The padding appends \<open>4 - len mod 4\<close> characters, which is four, not none, for a
  segment whose length is already a multiple of four: the twelve characters
  \<open>eyJhIjoxMjN9\<close> (the encoding of a nine-byte object) come out with \<open>====\<close> appended.
  A segment of 21 characters receives three.
\<close>

theorem pad_payload_aligned:
  "pad_payload ''eyJhIjoxMjN9'' = ''eyJhIjoxMjN9===='' \<and>
   pad_payload (replicate 21 (CHR ''A'')) = replicate 21 (CHR ''A'') @ ''===''"
  by code_simp

text \<open>
  C2. A role or user creation answered with 409, and a role deletion answered with 404:
  the step returns normally, having printed \<open>already exists\<close> or
  \<open>not found (skip)\<close>, and whatever step comes next (\<open>next1\<close>, \<open>next2\<close>,
  \<open>next3\<close>: the rest of the loop, the following section) runs from there.
\<close>

theorem conflict_is_no_op:
  "(api env1 ''POST'' (''/admin/realms/'' @ REALM @ ''/roles'')
        (PDict [(''name'', PStr role1), (''description'', PStr (''CRM '' @ role1 @ '' role''))])
        token1 s1 = (Inr (409, resp1), s1') \<longrightarrow>
      create_role env1 token1 role1 s1
        = (Inr (), s1'\<lparr>out := out s1' @ [Line NoIcon ''{}: already exists'' [PStr role1]]\<rparr>)
      \<and> bnd (create_role env1 token1 role1) next1 s1
        = next1 () (s1'\<lparr>out := out s1' @ [Line NoIcon ''{}: already exists'' [PStr role1]]\<rparr>))
   \<and> (api env2 ''DELETE'' (''/admin/realms/'' @ REALM @ ''/roles/'' @ role2) PNone token2 s2
        = (Inr (404, resp2), s2') \<longrightarrow>
      remove_role env2 token2 role2 s2
        = (Inr (), s2'\<lparr>out := out s2' @ [Line NoIcon ''{}: not found (skip)'' [PStr role2]]\<rparr>)
      \<and> bnd (remove_role env2 token2 role2) next2 s2
        = next2 () (s2'\<lparr>out := out s2' @ [Line NoIcon ''{}: not found (skip)'' [PStr role2]]\<rparr>))
   \<and> (api env3 ''POST'' (''/admin/realms/'' @ REALM @ ''/users'') user token3 s3
        = (Inr (409, resp3), s3') \<longrightarrow>
      create_user env3 token3 user shown s3
        = (Inr (), s3'\<lparr>out := out s3' @ [Line NoIcon (shown @ '': already exists'') []]\<rparr>)
      \<and> bnd (create_user env3 token3 user shown) next3 s3
        = next3 () (s3'\<lparr>out := out s3' @ [Line NoIcon (shown @ '': already exists'') []]\<rparr>))"
  by (simp add: create_role_def remove_role_def create_user_def bnd_def print_def)

theorem conflict_is_no_op_witness:
  "create_role (example_env [HTTPError 409 ''Conflict''] []) (PStr ''t'') ''super_admin'' start
     = (Inr (),
        \<lparr>sent = [api_request (example_env [HTTPError 409 ''Conflict''] []) ''POST''
                   (''/admin/realms/'' @ REALM @ ''/roles'')
                   (PDict [(''name'', PStr ''super_admin''),
                           (''description'', PStr ''CRM super_admin role'')]) (PStr ''t'')],
         out = [Line NoIcon ''{}: already exists'' [PStr ''super_admin'']]\<rparr>)
   \<and> remove_role (example_env [HTTPError 404 ''Not Found''] []) (PStr ''t'') ''viewer'' start
     = (Inr (),
        \<lparr>sent = [api_request (example_env [HTTPError 404 ''Not Found''] []) ''DELETE''
                   (''/admin/realms/'' @ REALM @ ''/roles/viewer'') PNone (PStr ''t'')],
         out = [Line NoIcon ''{}: not found (skip)'' [PStr ''viewer'']]\<rparr>)
   \<and> create_user (example_env [HTTPError 409 ''Conflict''] []) (PStr ''t'') SUPER_ADMIN
       ''superadmin@crm.local'' start
     = (Inr (),
        \<lparr>sent = [api_request (example_env [HTTPError 409 ''Conflict''] []) ''POST''
                   (''/admin/realms/'' @ REALM @ ''/users'') SUPER_ADMIN (PStr ''t'')],
         out = [Line NoIcon ''superadmin@crm.local: already exists'' []]\<rparr>)"
proof -
  let ?E = "example_env [HTTPError 409 ''Conflict''] []"
  let ?F = "example_env [HTTPError 404 ''Not Found''] []"
  have e: "api ?E ''POST'' p d (PStr ''t'') start
     = (Inr (409, PStr ''Conflict''),
        \<lparr>sent = [api_request ?E ''POST'' p d (PStr ''t'')], out = []\<rparr>)" for p d
    by (simp add: api_def send_def example_env_def replay_def start_def)
  have f: "api ?F ''DELETE'' p d (PStr ''t'') start
     = (Inr (404, PStr ''Not Found''),
        \<lparr>sent = [api_request ?F ''DELETE'' p d (PStr ''t'')], out = []\<rparr>)" for p d
    by (simp add: api_def send_def example_env_def replay_def start_def)
  note c = conflict_is_no_op[where ?env1.0="?E" and ?role1.0="''super_admin''"
      and ?token1.0="PStr ''t''" and ?s1.0=start and ?resp1.0="PStr ''Conflict''"
      and ?env2.0="?F" and ?role2.0="''viewer''" and ?token2.0="PStr ''t''"
      and ?s2.0=start and ?resp2.0="PStr ''Not Found''"
      and ?env3.0="?E" and ?token3.0="PStr ''t''" and ?s3.0=start
      and ?resp3.0="PStr ''Conflict''" and user=SUPER_ADMIN and shown="''superadmin@crm.local''"]
  have r1: "create_role ?E (PStr ''t'') ''super_admin'' start
     = (Inr (), \<lparr>sent = [api_request ?E ''POST'' (''/admin/realms/'' @ REALM @ ''/roles'')
                   (PDict [(''name'', PStr ''super_admin''),
                           (''description'', PStr ''CRM super_admin role'')]) (PStr ''t'')],
         out = [Line NoIcon ''{}: already exists'' [PStr ''super_admin'']]\<rparr>)"
    using c[THEN conjunct1, THEN mp, OF e, THEN conjunct1] by simp
  have r2: "remove_role ?F (PStr ''t'') ''viewer'' start
     = (Inr (), \<lparr>sent = [api_request ?F ''DELETE'' (''/admin/realms/'' @ REALM @ ''/roles/viewer'')
                   PNone (PStr ''t'')],
         out = [Line NoIcon ''{}: not found (skip)'' [PStr ''viewer'']]\<rparr>)"
    using c[THEN conjunct2, THEN conjunct1, THEN mp, OF f, THEN conjunct1] by simp
  have r3: "create_user ?E (PStr ''t'') SUPER_ADMIN ''superadmin@crm.local'' start
     = (Inr (), \<lparr>sent = [api_request ?E ''POST'' (''/admin/realms/'' @ REALM @ ''/users'')
                   SUPER_ADMIN (PStr ''t'')],
         out = [Line NoIcon ''superadmin@crm.local: already exists'' []]\<rparr>)"
    using c[THEN conjunct2, THEN conjunct2, THEN mp, OF e, THEN conjunct1] by simp
  show ?thesis using r1 r2 r3 by simp
qed



text \<open>
  C4. The attribute update of a user representation (a dictionary whose \<open>attributes\<close>,
  when present, is a dictionary) does not raise. In what it produces, \<open>company_id\<close> is
  \<open>['1']\<close>, every other attribute and every field other than \<open>attributes\<close> is as
  it was, and that representation is what the one request of the step, a \<open>PUT\<close>,
  carries as its JSON body.
\<close>

theorem company_id_merged:
  assumes "user_representation user_data"
  shows "case company_id_update user_data of
           Inl e \<Rightarrow> False
         | Inr merged \<Rightarrow>
             attribute merged ''company_id'' = Some (PList [PStr ''1''])
             \<and> (\<forall>k. k \<noteq> ''company_id'' \<longrightarrow> attribute merged k = attribute user_data k)
             \<and> (\<forall>f. f \<noteq> ''attributes'' \<longrightarrow> field merged f = field user_data f)
             \<and> sent (snd (set_company_id env token user_id user_data s))
                 = sent s @ [api_request env ''PUT''
                     (''/admin/realms/'' @ REALM @ ''/users/'' @ py_str env user_id) merged token]
             \<and> body (api_request env ''PUT''
                     (''/admin/realms/'' @ REALM @ ''/users/'' @ py_str env user_id) merged token)
                 = JsonOf merged"
proof -
  from user_representation_cases[OF assms] obtain kv where
    rep: "user_data = PDict kv" and
    at: "map_of kv ''attributes'' = None \<or> (\<exists>a. map_of kv ''attributes'' = Some (PDict a))"
    by blast
  define old where "old = (case map_of kv ''attributes'' of Some (PDict a) \<Rightarrow> a | _ \<Rightarrow> [])"
  define merged where "merged = PDict (AList.update ''attributes''
         (PDict (AList.update ''company_id'' (PList [PStr ''1'']) old)) kv)"
  have upd: "company_id_update user_data = Inr merged"
    using at company_id_update_dict[of kv] by (auto simp: rep merged_def old_def)
  have a1: "attribute merged ''company_id'' = Some (PList [PStr ''1''])"
    by (simp add: merged_def attribute_def field_def update_conv')
  have a2: "attribute merged k = attribute user_data k" if "k \<noteq> ''company_id''" for k
    using that at
    by (auto simp: merged_def rep old_def attribute_def field_def update_conv')
  have a3: "field merged f = field user_data f" if "f \<noteq> ''attributes''" for f
    using that by (simp add: merged_def rep field_def update_conv')
  have a4: "body (api_request env ''PUT'' p merged token) = JsonOf merged" for p
    by (simp add: api_request_def merged_def)
  show ?thesis
    using a1 a2 a3 a4 set_company_id_sent[OF upd] by (simp add: upd)
qed

theorem company_id_merged_witness:
  "user_representation (PDict [(''id'', PStr ''u1''), (''username'', PStr ''admin@crm.local''),
      (''attributes'', PDict [(''locale'', PList [PStr ''en''])])])
   \<and> company_id_update (PDict [(''id'', PStr ''u1''), (''username'', PStr ''admin@crm.local''),
      (''attributes'', PDict [(''locale'', PList [PStr ''en''])])])
     = Inr (PDict [(''id'', PStr ''u1''), (''username'', PStr ''admin@crm.local''),
         (''attributes'', PDict [(''locale'', PList [PStr ''en'']),
                                 (''company_id'', PList [PStr ''1''])])])
   \<and> attribute (PDict [(''id'', PStr ''u1''), (''username'', PStr ''admin@crm.local''),
         (''attributes'', PDict [(''locale'', PList [PStr ''en'']),
                                 (''company_id'', PList [PStr ''1''])])]) ''locale''
     = Some (PList [PStr ''en''])"
proof -
  let ?u = "PDict [(''id'', PStr ''u1''), (''username'', PStr ''admin@crm.local''),
      (''attributes'', PDict [(''locale'', PList [PStr ''en''])])]"
  have h: "user_representation ?u" by (simp add: user_representation_def)
  have u: "company_id_update ?u
     = Inr (PDict [(''id'', PStr ''u1''), (''username'', PStr ''admin@crm.local''),
         (''attributes'', PDict [(''locale'', PList [PStr ''en'']),
                                 (''company_id'', PList [PStr ''1''])])])"
    by (simp add: company_id_update_def)
  show ?thesis
    using company_id_merged[OF h, of "example_env [] []" PNone PNone start] h u
    by (simp add: attribute_def field_def)
qed

text \<open>
  C5. What \<open>api\<close> returns. When \<open>urlopen\<close> raises \<open>HTTPError\<close>, the status code
  with the text of the error body, and no exception; when the response is a success with
  a body that is not empty and that \<open>json.loads\<close> reads, the status with the value
  read; when the body is empty, the status with \<open>None\<close>. In each case the one request
  of the call has been sent.
\<close>

theorem api_returns:
  "(urlopen env (sent s @ [api_request env meth path data token]) = HTTPError code text \<longrightarrow>
      api env meth path data token s =
        (Inr (code, PStr text), s\<lparr>sent := sent s @ [api_request env meth path data token]\<rparr>))
   \<and> (urlopen env (sent s @ [api_request env meth path data token]) = Resp status content
        \<and> content \<noteq> [] \<and> loads env content = Inr v \<longrightarrow>
      api env meth path data token s =
        (Inr (status, v), s\<lparr>sent := sent s @ [api_request env meth path data token]\<rparr>))
   \<and> (urlopen env (sent s @ [api_request env meth path data token]) = Resp status [] \<longrightarrow>
      api env meth path data token s =
        (Inr (status, PNone), s\<lparr>sent := sent s @ [api_request env meth path data token]\<rparr>))"
  by (simp add: api_def send_def Let_def)

theorem api_returns_witness:
  "api (example_env [HTTPError 404 ''Not Found''] []) ''DELETE'' ''/admin/realms/crm-prod/roles/viewer''
       PNone (PStr ''t'') start
     = (Inr (404, PStr ''Not Found''),
        start\<lparr>sent := [api_request (example_env [HTTPError 404 ''Not Found''] []) ''DELETE''
           ''/admin/realms/crm-prod/roles/viewer'' PNone (PStr ''t'')]\<rparr>)
   \<and> api (example_env [Resp 200 ''[]''] [(''[]'', PList [])]) ''GET'' ''/admin/realms/crm-prod/users''
       PNone (PStr ''t'') start
     = (Inr (200, PList []),
        start\<lparr>sent := [api_request (example_env [Resp 200 ''[]''] [(''[]'', PList [])]) ''GET''
           ''/admin/realms/crm-prod/users'' PNone (PStr ''t'')]\<rparr>)
   \<and> api (example_env [Resp 204 ''''] []) ''PUT'' ''/admin/realms/crm-prod'' (PDict [(''a'', PInt 1)])
       (PStr ''t'') start
     = (Inr (204, PNone),
        start\<lparr>sent := [api_request (example_env [Resp 204 ''''] []) ''PUT''
           ''/admin/realms/crm-prod'' (PDict [(''a'', PInt 1)]) (PStr ''t'')]\<rparr>)"
  using api_returns[of "example_env [HTTPError 404 ''Not Found''] []" start "''DELETE''"
      "''/admin/realms/crm-prod/roles/viewer''" PNone "PStr ''t''" 404 "''Not Found''" 0 "[]" PNone]
    api_returns[of "example_env [Resp 200 ''[]''] [(''[]'', PList [])]" start "''GET''"
      "''/admin/realms/crm-prod/users''" PNone "PStr ''t''" 0 "[]" 200 "''[]''" "PList []"]
    api_returns[of "example_env [Resp 204 ''''] []" start "''PUT''"
      "''/admin/realms/crm-prod''" "PDict [(''a'', PInt 1)]" "PStr ''t''" 0 "[]" 204 "[]" PNone]
  by (simp add: example_env_def start_def replay_def loads_table_def)

text \<open>
  C6. In the second script each verification is a \<open>try\<close> whose handler prints the
  failure with the exception: whatever the provider answers, \<open>verify_admin\<close> and
  \<open>verify_super\<close> return normally; an exception raised by the password grant or the
  decoding is reported in a line that carries it; and the verification always sends both
  token requests and reaches the summary. The first script has no handler around its
  verification: there an exception ends the run, as a 401 from the token endpoint
  does in the last statement below.
\<close>

theorem verification_failures_reported:
  "fst (verify_admin env s) = Inr ()
   \<and> fst (verify_super env s) = Inr ()
   \<and> (admin_check env s = (Inl (Uncaught e), s') \<longrightarrow>
        verify_admin env s
          = (Inr (), s'\<lparr>out := out s' @ [Failure ''Token test failed: {}'' e]\<rparr>))
   \<and> (super_check env s = (Inl (Uncaught e), s') \<longrightarrow>
        verify_super env s
          = (Inr (), s'\<lparr>out := out s' @ [Failure ''Superadmin token test failed: {}'' e]\<rparr>))
   \<and> fst (verification env s) = Inr ()
   \<and> sent (snd (verification env s)) = sent s @
       [token_request REALM
          ''grant_type=password&client_id=crm-web&username=admin%40crm.local&password=admin123'',
        token_request REALM
          ''grant_type=password&client_id=crm-web&username=superadmin&password=super123'']"
  using verify_admin_ok[of env s] verify_super_ok[of env s] verification_run[of env s]
  by (simp add: verify_admin_def verify_super_def try_except_def print_def)

theorem verification_failures_reported_witness:
  "admin_check (example_env [HTTPError 401 ''Unauthorized''] []) start
     = (Inl (Uncaught (HTTPErrorExn 401)),
        \<lparr>sent = [token_request REALM
           ''grant_type=password&client_id=crm-web&username=admin%40crm.local&password=admin123''],
         out = []\<rparr>)
   \<and> verify_admin (example_env [HTTPError 401 ''Unauthorized''] []) start
     = (Inr (),
        \<lparr>sent = [token_request REALM
           ''grant_type=password&client_id=crm-web&username=admin%40crm.local&password=admin123''],
         out = [Failure ''Token test failed: {}'' (HTTPErrorExn 401)]\<rparr>)
   \<and> super_check (example_env [HTTPError 401 ''Unauthorized''] []) start
     = (Inl (Uncaught (HTTPErrorExn 401)),
        \<lparr>sent = [token_request REALM
           ''grant_type=password&client_id=crm-web&username=superadmin&password=super123''],
         out = []\<rparr>)
   \<and> verify_super (example_env [HTTPError 401 ''Unauthorized''] []) start
     = (Inr (),
        \<lparr>sent = [token_request REALM
           ''grant_type=password&client_id=crm-web&username=superadmin&password=super123''],
         out = [Failure ''Superadmin token test failed: {}'' (HTTPErrorExn 401)]\<rparr>)"
proof -
  let ?E = "example_env [HTTPError 401 ''Unauthorized''] []"
  let ?ra = "token_request REALM
     ''grant_type=password&client_id=crm-web&username=admin%40crm.local&password=admin123''"
  let ?rs = "token_request REALM
     ''grant_type=password&client_id=crm-web&username=superadmin&password=super123''"
  have f: "fetch_json ?E r start = (Inl (Uncaught (HTTPErrorExn 401)), \<lparr>sent = [r], out = []\<rparr>)"
    for r
    by (simp add: fetch_json_def send_def example_env_def replay_def start_def)
  have a: "admin_check ?E start = (Inl (Uncaught (HTTPErrorExn 401)), \<lparr>sent = [?ra], out = []\<rparr>)"
    by (simp add: admin_check_def token_claims_def bnd_def f)
  have b: "super_check ?E start = (Inl (Uncaught (HTTPErrorExn 401)), \<lparr>sent = [?rs], out = []\<rparr>)"
    by (simp add: super_check_def token_claims_def bnd_def f)
  note v = verification_failures_reported[where env="?E" and s=start and e="HTTPErrorExn 401"]
  have ra: "verify_admin ?E start
     = (Inr (), \<lparr>sent = [?ra], out = [Failure ''Token test failed: {}'' (HTTPErrorExn 401)]\<rparr>)"
    using v[where s'="\<lparr>sent = [?ra], out = []\<rparr>", THEN conjunct2, THEN conjunct2, THEN conjunct1,
        THEN mp, OF a] by simp
  have rb: "verify_super ?E start
     = (Inr (), \<lparr>sent = [?rs],
          out = [Failure ''Superadmin token test failed: {}'' (HTTPErrorExn 401)]\<rparr>)"
    using v[where s'="\<lparr>sent = [?rs], out = []\<rparr>", THEN conjunct2, THEN conjunct2, THEN conjunct2,
        THEN conjunct1, THEN mp, OF b] by simp
  show ?thesis using a b ra rb by simp
qed

theorem verify1_uncaught_counterexample:
  "verify1 (example_env [HTTPError 401 ''Unauthorized''] []) start
     = (Inl (Uncaught (HTTPErrorExn 401)),
        \<lparr>sent = [token_request REALM
           ''grant_type=password&client_id=crm-web&username=admin@crm.local&password=admin123''],
         out = [Line NoIcon ''7. Verifying token has roles...'' []]\<rparr>)"
  by (simp add: verify1_def token_claims_def bnd_def print_def fetch_json_def send_def
      example_env_def replay_def start_def)

text \<open>
  C7. The role check on decoded claims of the expected shape. The first script reports
  \<open>owner_admin\<close> as found exactly when it is in the union of \<open>realm_access.roles\<close> and
  the legacy \<open>realm_roles\<close>. The second script reads \<open>realm_access.roles\<close> only: its
  checks succeed exactly when the expected role is in that list, whatever \<open>realm_roles\<close>
  holds: with the role in \<open>realm_roles\<close> alone, the last statement below, the check
  of the second script fails.
\<close>

theorem role_check:
  assumes "wf_claims decoded"
  shows "fst (report_roles1 decoded start) = Inr ()
     \<and> (Line Check ''owner_admin found in token!'' [] \<in> set (printed (report_roles1 decoded))
          \<longleftrightarrow> PStr ''owner_admin'' \<in> roles_union decoded)
     \<and> fst (report_admin decoded start) = Inr ()
     \<and> (Line Check ''Token verified: roles + company_id present!'' []
            \<in> set (printed (report_admin decoded))
          \<or> Line Warn ''Roles OK but company_id missing from token'' []
            \<in> set (printed (report_admin decoded))
          \<longleftrightarrow> PStr ''company_admin'' \<in> set (realm_access_roles decoded))
     \<and> fst (report_super decoded start) = Inr ()
     \<and> (Line Check ''super_admin token verified!'' [] \<in> set (printed (report_super decoded))
          \<longleftrightarrow> PStr ''super_admin'' \<in> set (realm_access_roles decoded))"
proof -
  from assms obtain kv ra where d: "decoded = PDict kv"
    and nrr: "names_or_absent (map_of kv ''realm_roles'')"
    and g1: "py_get decoded ''realm_access'' (PDict []) = Inr (PDict ra)"
    and nra: "names_or_absent (map_of ra ''roles'')"
    and rar: "realm_access_roles decoded = role_list (map_of ra ''roles'')"
    by (rule wf_claims_cases)
  define rs where "rs = role_list (map_of ra ''roles'')"
  define rrs where "rrs = role_list (map_of kv ''realm_roles'')"
  have str_rs: "list_all is_str rs" and str_rrs: "list_all is_str rrs"
    using names_value[OF nra] names_value[OF nrr] by (simp_all add: rs_def rrs_def)
  have g2: "py_get decoded ''realm_roles'' (PList []) = Inr (PList rrs)"
    using names_value[OF nrr] by (auto simp: d rrs_def split: option.splits)
  obtain shown where g3: "py_get (PDict ra) ''roles'' (PStr ''MISSING'') = Inr shown"
    by (cases "map_of ra ''roles''") simp_all
  have g4: "all_roles1 (PDict ra) (PList rrs) = Inr (rs @ rrs)"
    using all_roles1_names[OF nra str_rrs] by (simp add: rs_def)
  obtain ks where g5: "dict_keys decoded = Inr ks"
    by (simp add: dict_keys_def d)
  have t1: "token_roles decoded = Inr (PList rs)"
    using names_value[OF nra] by (auto simp: token_roles_def g1 rs_def split: option.splits)
  obtain keep where t2: "shown_roles (PList rs) = Inr (PList keep)"
    using without_default_total[OF str_rs] by (auto simp: shown_roles_def)
  obtain cid where t4: "py_get decoded ''company_id'' PNone = Inr cid"
    by (cases "map_of kv ''company_id''") (simp_all add: d)
  have u: "roles_union decoded = set rs \<union> set rrs"
    using rar by (simp add: roles_union_def rs_def legacy_realm_roles_def field_def d rrs_def)
  have r1: "report_roles1 decoded start
      = (Inr (), start\<lparr>out := out start @
           [Line NoIcon ''realm_access.roles: {}'' [shown],
            Line NoIcon ''realm_roles: {}'' [if truthy (PList rrs) then PList rrs else PStr ''MISSING'']]
           @ (if PStr ''owner_admin'' \<in> set rs \<union> set rrs
              then [Line Check ''owner_admin found in token!'' []]
              else [Line Cross ''owner_admin NOT in token'' [],
                    Line NoIcon ''All claims: {}'' [ks]])\<rparr>)"
    by (simp add: report_roles1_def bnd_def lift_def print_def g1 g2 g3 g4 g5 del: py_get.simps)
  have r2: "report_admin decoded start
      = (Inr (), start\<lparr>out := out start @
           [Line NoIcon ''admin@crm.local token:'' [],
            Line NoIcon ''roles: {}'' [PList keep],
            Line NoIcon ''company_id: {}'' [cid],
            if PStr ''company_admin'' \<in> set rs \<and> truthy cid
            then Line Check ''Token verified: roles + company_id present!'' []
            else if PStr ''company_admin'' \<in> set rs
            then Line Warn ''Roles OK but company_id missing from token'' []
            else Line Cross ''company_admin not in token roles'' []]\<rparr>)"
    by (simp add: report_admin_def bnd_def lift_def print_def t1 t2 t4 del: py_get.simps)
  have r3: "report_super decoded start
      = (Inr (), start\<lparr>out := out start @
           [Line NoIcon ''superadmin token:'' [],
            Line NoIcon ''roles: {}'' [PList keep],
            if PStr ''super_admin'' \<in> set rs
            then Line Check ''super_admin token verified!'' []
            else Line Cross ''super_admin not in token roles'' []]\<rparr>)"
    by (simp add: report_super_def bnd_def lift_def print_def t1 t2)
  show ?thesis
    by (simp add: printed_def r1 r2 r3 u rar rs_def[symmetric] start_simps)
qed

theorem role_check_witness:
  "wf_claims (PDict [(''realm_access'', PDict [(''roles'',
        PList [PStr ''company_admin'', PStr ''default-roles-crm-prod''])]),
      (''realm_roles'', PList [PStr ''owner_admin'']), (''company_id'', PStr ''1'')])
   \<and> Line Check ''owner_admin found in token!'' []
       \<in> set (printed (report_roles1 (PDict [(''realm_access'', PDict [(''roles'',
            PList [PStr ''company_admin'', PStr ''default-roles-crm-prod''])]),
          (''realm_roles'', PList [PStr ''owner_admin'']), (''company_id'', PStr ''1'')])))
   \<and> (Line Check ''Token verified: roles + company_id present!'' []
         \<in> set (printed (report_admin (PDict [(''realm_access'', PDict [(''roles'',
            PList [PStr ''company_admin'', PStr ''default-roles-crm-prod''])]),
          (''realm_roles'', PList [PStr ''owner_admin'']), (''company_id'', PStr ''1'')])))
       \<or> Line Warn ''Roles OK but company_id missing from token'' []
         \<in> set (printed (report_admin (PDict [(''realm_access'', PDict [(''roles'',
            PList [PStr ''company_admin'', PStr ''default-roles-crm-prod''])]),
          (''realm_roles'', PList [PStr ''owner_admin'']), (''company_id'', PStr ''1'')]))))
   \<and> Line Check ''super_admin token verified!'' []
       \<notin> set (printed (report_super (PDict [(''realm_access'', PDict [(''roles'',
            PList [PStr ''company_admin'', PStr ''default-roles-crm-prod''])]),
          (''realm_roles'', PList [PStr ''owner_admin'']), (''company_id'', PStr ''1'')])))"
proof -
  let ?d = "PDict [(''realm_access'', PDict [(''roles'',
        PList [PStr ''company_admin'', PStr ''default-roles-crm-prod''])]),
      (''realm_roles'', PList [PStr ''owner_admin'']), (''company_id'', PStr ''1'')]"
  have h: "wf_claims ?d" by (simp add: wf_claims_def names_or_absent_def)
  have u: "PStr ''owner_admin'' \<in> roles_union ?d"
    by (simp add: roles_union_def legacy_realm_roles_def field_def role_list_def)
  have r: "realm_access_roles ?d = [PStr ''company_admin'', PStr ''default-roles-crm-prod'']"
    by (simp add: realm_access_roles_def field_def role_list_def)
  show ?thesis using role_check[OF h] h u by (simp add: r)
qed

theorem role_check_counterexample:
  "PStr ''company_admin'' \<in> roles_union (PDict [(''realm_roles'', PList [PStr ''company_admin''])])
   \<and> printed (report_admin (PDict [(''realm_roles'', PList [PStr ''company_admin''])]))
     = [Line NoIcon ''admin@crm.local token:'' [],
        Line NoIcon ''roles: {}'' [PList []],
        Line NoIcon ''company_id: {}'' [PNone],
        Line Cross ''company_admin not in token roles'' []]"
  by (simp add: roles_union_def legacy_realm_roles_def field_def role_list_def printed_def
      report_admin_def token_roles_def shown_roles_def bnd_def lift_def print_def start_def)

text \<open>
  C8. The request that \<open>api\<close> builds. The payload is sent, as its JSON serialization,
  exactly when it is truthy: an empty list or an empty mapping (like \<open>None\<close>, zero,
  false and the empty string) sends no body. The \<open>Authorization\<close> header is there
  exactly when the token is truthy, that is, given and not empty. The JSON content type
  is always there.
\<close>

theorem api_request_payload:
  "body (api_request env meth path data token) = (if truthy data then JsonOf data else NoBody)
   \<and> map_of (headers (api_request env meth path data token)) ''Content-Type''
       = Some ''application/json''
   \<and> map_of (headers (api_request env meth path data token)) ''Authorization''
       = (if truthy token then Some (''Bearer '' @ py_str env token) else None)"
  by (simp add: api_request_def)

theorem api_request_payload_witness:
  "body (api_request (example_env [] []) ''POST'' ''/admin/realms/crm-prod/roles''
      (PDict [(''name'', PStr ''viewer'')]) (PStr ''t'')) = JsonOf (PDict [(''name'', PStr ''viewer'')])
   \<and> map_of (headers (api_request (example_env [] []) ''POST'' ''/admin/realms/crm-prod/roles''
      (PDict [(''name'', PStr ''viewer'')]) (PStr ''t''))) ''Authorization'' = Some ''Bearer t''"
  using api_request_payload[of "example_env [] []" "''POST''" "''/admin/realms/crm-prod/roles''"
      "PDict [(''name'', PStr ''viewer'')]" "PStr ''t''"]
  by (simp add: py_str_def)

theorem api_empty_payload_counterexample:
  "body (api_request (example_env [] []) ''POST'' ''/admin/realms/crm-prod/users/u1/role-mappings/realm''
      (PList []) (PStr ''t'')) \<noteq> JsonOf (PList [])"
  by (simp add: api_request_def)

text \<open>
  C9. A segment with \<open>-\<close> or \<open>_\<close> in it never decodes, in the scripts, to the bytes
  that base64url decoding gives for it: the standard decoder drops those characters, so
  what it returns, if anything, is shorter.
\<close>

theorem b64decode_not_url:
  assumes "CHR ''-'' \<in> set seg \<or> CHR ''_'' \<in> set seg"
    and "b64url_decode seg = Some bs"
  shows "b64decode (pad_payload seg) \<noteq> Inr bs"
proof
  assume d: "b64decode (pad_payload seg) = Inr bs"
  from assms(2) obtain vs where vs: "sextets_of seg = Some vs" and m: "length vs mod 4 \<noteq> 1"
    and bs: "bs = map char_of (sextets_to_bytes vs)"
    by (auto simp: b64url_decode_def split: option.splits if_splits)
  have len: "length bs = (3 * length seg) div 4"
    using bs vs by (simp add: sextets_to_bytes_length sextets_of_length)
  have "length bs \<le> (3 * std_count seg) div 4"
    using b64decode_length[OF d] by (simp add: std_count_pad)
  moreover have "(3 * std_count seg) div 4 < (3 * length seg) div 4"
    using step_arith[OF std_count_less[OF assms(1)]] m sextets_of_length[OF vs] by simp
  ultimately show False using len by simp
qed

theorem b64decode_not_url_witness:
  "(CHR ''-'' \<in> set ''AA-A'' \<or> CHR ''_'' \<in> set ''AA-A'')
   \<and> b64url_decode ''AA-A'' = Some [CHR 0x00, CHR 0x0F, CHR 0x80]
   \<and> b64decode (pad_payload ''AA-A'') \<noteq> Inr [CHR 0x00, CHR 0x0F, CHR 0x80]"
proof -
  have h1: "CHR ''-'' \<in> set ''AA-A'' \<or> CHR ''_'' \<in> set ''AA-A''" by simp
  have h2: "b64url_decode ''AA-A'' = Some [CHR 0x00, CHR 0x0F, CHR 0x80]" by code_simp
  show ?thesis using h1 h2 b64decode_not_url[OF h1 h2] by simp
qed

text \<open>
  C10. The two lookups of the first script. The exit path is taken exactly when the body
  that \<open>api\<close> returned is not truthy: \<open>None\<close>, an empty list, mapping or string, but
  also zero or false, and also the empty text of an HTTP error without a body. When the
  body is truthy the run does not leave through \<open>sys.exit\<close>; when the body is the text
  of an HTTP error and is not empty, the guard lets it pass and indexing its first
  character with \<open>'id'\<close> raises \<open>TypeError\<close>, which nothing catches.
\<close>

theorem lookup_guard:
  "(api env1 ''GET'' (''/admin/realms/'' @ REALM @ ''/clients?clientId=crm-web'') PNone token1
        (s1\<lparr>out := out s1 @ [Line NoIcon ''2. Finding crm-web client...'' []]\<rparr>)
      = (Inr (code1, body1), s1') \<longrightarrow>
      (\<not> truthy body1 \<longrightarrow>
         find_client1 env1 token1 s1
           = (Inl (Exit 1), s1'\<lparr>out := out s1' @ [Line Cross ''Client not found'' []]\<rparr>))
      \<and> (truthy body1 \<longrightarrow> fst (find_client1 env1 token1 s1) \<noteq> Inl (Exit 1))
      \<and> (body1 = PStr text1 \<and> text1 \<noteq> [] \<longrightarrow>
           find_client1 env1 token1 s1 = (Inl (Uncaught TypeError), s1')))
   \<and> (api env2 ''GET'' (''/admin/realms/'' @ REALM @ ''/users?username=admin@crm.local'') PNone
        token2 (s2\<lparr>out := out s2 @ [Line NoIcon ''4. Finding admin@crm.local...'' []]\<rparr>)
      = (Inr (code2, body2), s2') \<longrightarrow>
      (\<not> truthy body2 \<longrightarrow>
         find_user1 env2 token2 s2
           = (Inl (Exit 1), s2'\<lparr>out := out s2' @ [Line Cross ''User not found'' []]\<rparr>))
      \<and> (truthy body2 \<longrightarrow> fst (find_user1 env2 token2 s2) \<noteq> Inl (Exit 1))
      \<and> (body2 = PStr text2 \<and> text2 \<noteq> [] \<longrightarrow>
           find_user1 env2 token2 s2 = (Inl (Uncaught TypeError), s2')))"
proof (intro conjI impI)
  assume h: "api env1 ''GET'' (''/admin/realms/'' @ REALM @ ''/clients?clientId=crm-web'') PNone
        token1 (s1\<lparr>out := out s1 @ [Line NoIcon ''2. Finding crm-web client...'' []]\<rparr>)
      = (Inr (code1, body1), s1')"
  note c = find_client1_cases[OF h]
  show "find_client1 env1 token1 s1
      = (Inl (Exit 1), s1'\<lparr>out := out s1' @ [Line Cross ''Client not found'' []]\<rparr>)"
    if "\<not> truthy body1" using that by (simp add: c)
  show "fst (find_client1 env1 token1 s1) \<noteq> Inl (Exit 1)" if "truthy body1"
    using that by (simp add: c split: sum.splits)
  show "find_client1 env1 token1 s1 = (Inl (Uncaught TypeError), s1')"
    if "body1 = PStr text1 \<and> text1 \<noteq> []"
    using that by (simp add: c index_text)
next
  assume h: "api env2 ''GET'' (''/admin/realms/'' @ REALM @ ''/users?username=admin@crm.local'')
        PNone token2 (s2\<lparr>out := out s2 @ [Line NoIcon ''4. Finding admin@crm.local...'' []]\<rparr>)
      = (Inr (code2, body2), s2')"
  note c = find_user1_cases[OF h]
  show "find_user1 env2 token2 s2
      = (Inl (Exit 1), s2'\<lparr>out := out s2' @ [Line Cross ''User not found'' []]\<rparr>)"
    if "\<not> truthy body2" using that by (simp add: c)
  show "fst (find_user1 env2 token2 s2) \<noteq> Inl (Exit 1)" if "truthy body2"
    using that by (simp add: c split: sum.splits)
  show "find_user1 env2 token2 s2 = (Inl (Uncaught TypeError), s2')"
    if "body2 = PStr text2 \<and> text2 \<noteq> []"
    using that by (simp add: c index_text)
qed

theorem lookup_guard_witness:
  "find_client1 (example_env [Resp 200 ''[]''] [(''[]'', PList [])]) (PStr ''t'') start
     = (Inl (Exit 1),
        \<lparr>sent = [api_request (example_env [Resp 200 ''[]''] [(''[]'', PList [])]) ''GET''
                   (''/admin/realms/'' @ REALM @ ''/clients?clientId=crm-web'') PNone (PStr ''t'')],
         out = [Line NoIcon ''2. Finding crm-web client...'' [], Line Cross ''Client not found'' []]\<rparr>)
   \<and> find_client1 (example_env [HTTPError 401 ''Unauthorized''] []) (PStr ''t'') start
     = (Inl (Uncaught TypeError),
        \<lparr>sent = [api_request (example_env [HTTPError 401 ''Unauthorized''] []) ''GET''
                   (''/admin/realms/'' @ REALM @ ''/clients?clientId=crm-web'') PNone (PStr ''t'')],
         out = [Line NoIcon ''2. Finding crm-web client...'' []]\<rparr>)
   \<and> find_user1 (example_env [Resp 200 ''[]''] [(''[]'', PList [])]) (PStr ''t'') start
     = (Inl (Exit 1),
        \<lparr>sent = [api_request (example_env [Resp 200 ''[]''] [(''[]'', PList [])]) ''GET''
                   (''/admin/realms/'' @ REALM @ ''/users?username=admin@crm.local'') PNone
                   (PStr ''t'')],
         out = [Line NoIcon ''4. Finding admin@crm.local...'' [], Line Cross ''User not found'' []]\<rparr>)
   \<and> find_user1 (example_env [HTTPError 401 ''Unauthorized''] []) (PStr ''t'') start
     = (Inl (Uncaught TypeError),
        \<lparr>sent = [api_request (example_env [HTTPError 401 ''Unauthorized''] []) ''GET''
                   (''/admin/realms/'' @ REALM @ ''/users?username=admin@crm.local'') PNone
                   (PStr ''t'')],
         out = [Line NoIcon ''4. Finding admin@crm.local...'' []]\<rparr>)"
proof -
  let ?E = "example_env [Resp 200 ''[]''] [(''[]'', PList [])]"
  let ?F = "example_env [HTTPError 401 ''Unauthorized''] []"
  have e: "api ?E ''GET'' p PNone (PStr ''t'') (start\<lparr>out := out start @ [l]\<rparr>)
     = (Inr (200, PList []),
        \<lparr>sent = [api_request ?E ''GET'' p PNone (PStr ''t'')], out = [l]\<rparr>)" for p l
    by (simp add: api_def send_def example_env_def replay_def start_def loads_table_def)
  have f: "api ?F ''GET'' p PNone (PStr ''t'') (start\<lparr>out := out start @ [l]\<rparr>)
     = (Inr (401, PStr ''Unauthorized''),
        \<lparr>sent = [api_request ?F ''GET'' p PNone (PStr ''t'')], out = [l]\<rparr>)" for p l
    by (simp add: api_def send_def example_env_def replay_def start_def)
  let ?pc = "''/admin/realms/'' @ REALM @ ''/clients?clientId=crm-web''"
  let ?pu = "''/admin/realms/'' @ REALM @ ''/users?username=admin@crm.local''"
  let ?lc = "Line NoIcon ''2. Finding crm-web client...'' []"
  let ?lu = "Line NoIcon ''4. Finding admin@crm.local...'' []"
  note g1 = lookup_guard[where ?env1.0="?E" and ?token1.0="PStr ''t''" and ?s1.0=start
      and ?code1.0=200 and ?body1.0="PList []"
      and ?s1'="\<lparr>sent = [api_request ?E ''GET'' ?pc PNone (PStr ''t'')], out = [?lc]\<rparr>"
      and ?env2.0="?E" and ?token2.0="PStr ''t''" and ?s2.0=start
      and ?code2.0=200 and ?body2.0="PList []"
      and ?s2'="\<lparr>sent = [api_request ?E ''GET'' ?pu PNone (PStr ''t'')], out = [?lu]\<rparr>"]
  note g2 = lookup_guard[where ?env1.0="?F" and ?token1.0="PStr ''t''" and ?s1.0=start
      and ?code1.0=401 and ?body1.0="PStr ''Unauthorized''" and ?text1.0="''Unauthorized''"
      and ?s1'="\<lparr>sent = [api_request ?F ''GET'' ?pc PNone (PStr ''t'')], out = [?lc]\<rparr>"
      and ?env2.0="?F" and ?token2.0="PStr ''t''" and ?s2.0=start
      and ?code2.0=401 and ?body2.0="PStr ''Unauthorized''" and ?text2.0="''Unauthorized''"
      and ?s2'="\<lparr>sent = [api_request ?F ''GET'' ?pu PNone (PStr ''t'')], out = [?lu]\<rparr>"]
  have r1: "find_client1 ?E (PStr ''t'') start
     = (Inl (Exit 1), \<lparr>sent = [api_request ?E ''GET'' ?pc PNone (PStr ''t'')],
          out = [?lc, Line Cross ''Client not found'' []]\<rparr>)"
    using g1[THEN conjunct1, THEN mp, OF e, THEN conjunct1] by simp
  have r2: "find_user1 ?E (PStr ''t'') start
     = (Inl (Exit 1), \<lparr>sent = [api_request ?E ''GET'' ?pu PNone (PStr ''t'')],
          out = [?lu, Line Cross ''User not found'' []]\<rparr>)"
    using g1[THEN conjunct2, THEN mp, OF e, THEN conjunct1] by simp
  have r3: "find_client1 ?F (PStr ''t'') start
     = (Inl (Uncaught TypeError), \<lparr>sent = [api_request ?F ''GET'' ?pc PNone (PStr ''t'')],
          out = [?lc]\<rparr>)"
    using g2[THEN conjunct1, THEN mp, OF f, THEN conjunct2, THEN conjunct2] by simp
  have r4: "find_user1 ?F (PStr ''t'') start
     = (Inl (Uncaught TypeError), \<lparr>sent = [api_request ?F ''GET'' ?pu PNone (PStr ''t'')],
          out = [?lu]\<rparr>)"
    using g2[THEN conjunct2, THEN mp, OF f, THEN conjunct2, THEN conjunct2] by simp
  show ?thesis using r1 r2 r3 r4 by simp
qed

theorem lookup_guard_counterexample:
  "fst (find_client1 (example_env [HTTPError 404 []] []) (PStr ''t'') start) = Inl (Exit 1)
   \<and> fst (find_client1 (example_env [Resp 200 ''0''] [(''0'', PInt 0)]) (PStr ''t'') start)
       = Inl (Exit 1)"
  by (simp add: find_client1_def bnd_def print_def sys_exit_def api_def send_def
      example_env_def replay_def start_def loads_table_def)

end
